theory Spec2Isabelle
  imports Complex_Main "HOL-Library.AList" "HOL-Library.Multiset"
begin

section \<open>JavaScript values\<close>

text \<open>
  Numbers are exact rationals: the scores of the reranker are sums and products of a few
  decimal constants, and rounding is not part of what is verified here. A value that is
  \<^verbatim>\<open>undefined\<close> or \<^verbatim>\<open>null\<close> is \<open>None\<close>; \<^verbatim>\<open>NaN\<close> is \<open>None\<close> too.
  Strings are lists of 8-bit code units, of which only the ASCII letters change case: every
  place where the code lowers a string then either discards the units outside
  \<^verbatim>\<open>[A-Za-z0-9_]\<close> and white space, or compares the string with ASCII tokens.
\<close>

definition truthy_str :: "string option \<Rightarrow> bool" where
  "truthy_str s = (case s of None \<Rightarrow> False | Some v \<Rightarrow> v \<noteq> [])"

definition truthy_num :: "rat option \<Rightarrow> bool" where
  "truthy_num x = (case x of None \<Rightarrow> False | Some v \<Rightarrow> v \<noteq> 0)"

text \<open>\<^verbatim>\<open>a || b\<close> with a string default, with a numeric default, and between two properties.\<close>

definition or_str :: "string option \<Rightarrow> string \<Rightarrow> string" where
  "or_str s d = (case s of None \<Rightarrow> d | Some v \<Rightarrow> if v = [] then d else v)"

definition or_num :: "rat option \<Rightarrow> rat \<Rightarrow> rat" where
  "or_num x d = (case x of None \<Rightarrow> d | Some v \<Rightarrow> if v = 0 then d else v)"

definition or_prop :: "string option \<Rightarrow> string option \<Rightarrow> string option" where
  "or_prop a b = (if truthy_str a then a else b)"

definition digit_chars :: string where
  "digit_chars = ''0123456789''"

definition upper_chars :: string where
  "upper_chars = ''ABCDEFGHIJKLMNOPQRSTUVWXYZ''"

definition lower_chars :: string where
  "lower_chars = ''abcdefghijklmnopqrstuvwxyz''"

definition is_digit :: "char \<Rightarrow> bool" where
  "is_digit c = (c \<in> set digit_chars)"

definition is_upper :: "char \<Rightarrow> bool" where
  "is_upper c = (c \<in> set upper_chars)"

definition is_lower :: "char \<Rightarrow> bool" where
  "is_lower c = (c \<in> set lower_chars)"

text \<open>The class \<^verbatim>\<open>\w\<close>.\<close>

definition is_word :: "char \<Rightarrow> bool" where
  "is_word c = (is_digit c \<or> is_upper c \<or> is_lower c \<or> c = CHR ''_'')"

text \<open>The class \<^verbatim>\<open>\s\<close>: tab, line feed, vertical tab, form feed, carriage return, space and
  the no-break space.\<close>

definition is_space :: "char \<Rightarrow> bool" where
  "is_space c = (c \<in> set [CHR 0x09, CHR 0x0A, CHR 0x0B, CHR 0x0C, CHR 0x0D, CHR '' '', CHR 0xA0])"

definition toLowerChar :: "char \<Rightarrow> char" where
  "toLowerChar c = (case map_of (zip upper_chars lower_chars) c of None \<Rightarrow> c | Some l \<Rightarrow> l)"

definition toLowerCase :: "string \<Rightarrow> string" where
  "toLowerCase s = map toLowerChar s"

text \<open>\<^verbatim>\<open>s.startsWith(t)\<close> and \<^verbatim>\<open>s.includes(t)\<close>.\<close>

fun startsWith :: "string \<Rightarrow> string \<Rightarrow> bool" where
  "startsWith s [] = True"
| "startsWith [] (c # t) = False"
| "startsWith (d # s) (c # t) = (if d = c then startsWith s t else False)"

fun includes_str :: "string \<Rightarrow> string \<Rightarrow> bool" where
  "includes_str [] t = (t = [])"
| "includes_str (c # s) t = (startsWith (c # s) t \<or> includes_str s t)"

text \<open>\<^verbatim>\<open>s.trim()\<close>.\<close>

definition trim :: "string \<Rightarrow> string" where
  "trim s = rev (dropWhile is_space (rev (dropWhile is_space s)))"

text \<open>\<^verbatim>\<open>s.split(/\s+/)\<close>: the pieces between maximal runs of white space; a string that starts
  or ends with white space yields an empty first or last piece.\<close>

fun split_ws_from :: "bool \<Rightarrow> string \<Rightarrow> string \<Rightarrow> string list" where
  "split_ws_from in_sep cur [] = [cur]"
| "split_ws_from in_sep cur (c # cs) =
     (if is_space c
      then (if in_sep then split_ws_from True cur cs else cur # split_ws_from True [] cs)
      else split_ws_from False (cur @ [c]) cs)"

definition split_ws :: "string \<Rightarrow> string list" where
  "split_ws s = split_ws_from False [] s"

text \<open>\<^verbatim>\<open>s.split(',')\<close>.\<close>

fun split_comma_from :: "string \<Rightarrow> string \<Rightarrow> string list" where
  "split_comma_from cur [] = [cur]"
| "split_comma_from cur (c # cs) =
     (if c = CHR '','' then cur # split_comma_from [] cs else split_comma_from (cur @ [c]) cs)"

definition split_comma :: "string \<Rightarrow> string list" where
  "split_comma s = split_comma_from [] s"

text \<open>\<^verbatim>\<open>parts.join(sep)\<close>.\<close>

fun join :: "string \<Rightarrow> string list \<Rightarrow> string" where
  "join sep [] = []"
| "join sep [p] = p"
| "join sep (p # q # ps) = p @ sep @ join sep (q # ps)"

text \<open>\<^verbatim>\<open>String(n)\<close> of an integer.\<close>

fun string_of_nat :: "nat \<Rightarrow> string" where
  "string_of_nat n =
     (if n < 10 then [digit_chars ! n]
      else string_of_nat (n div 10) @ [digit_chars ! (n mod 10)])"

declare string_of_nat.simps [simp del]

definition String :: "int \<Rightarrow> string" where
  "String i = (if i < 0 then CHR ''-'' # string_of_nat (nat (- i)) else string_of_nat (nat i))"

text \<open>The value of a digit, and of a run of decimal digits.\<close>

definition digit_value :: "char \<Rightarrow> nat" where
  "digit_value c = (case map_of (zip digit_chars [0 ..< 10]) c of None \<Rightarrow> 0 | Some d \<Rightarrow> d)"

definition digits_value :: "string \<Rightarrow> nat" where
  "digits_value ds = foldl (\<lambda>a c. 10 * a + digit_value c) 0 ds"

text \<open>
  \<^verbatim>\<open>parseFloat(s)\<close> on the strings that reach it in the Gemini parser, which are made of
  digits, dots and white space only: leading white space is skipped and the longest prefix
  \<^verbatim>\<open>digits [. digits]\<close> or \<^verbatim>\<open>. digits\<close> is read; without a digit the result is
  \<^verbatim>\<open>NaN\<close>. Signs, exponents and \<^verbatim>\<open>Infinity\<close> cannot occur in those strings.
\<close>

definition parseFloat :: "string \<Rightarrow> rat option" where
  "parseFloat s =
     (let t = dropWhile is_space s;
          ip = takeWhile is_digit t;
          r = dropWhile is_digit t;
          fp = (case r of [] \<Rightarrow> [] | c # r' \<Rightarrow> if c = CHR ''.'' then takeWhile is_digit r' else [])
      in if ip = [] \<and> fp = [] then None
         else Some (of_nat (digits_value ip) + of_nat (digits_value fp) / 10 ^ length fp))"

text \<open>\<^verbatim>\<open>Math.min(Math.max(x, 0), 1)\<close>.\<close>

definition clamp01 :: "rat \<Rightarrow> rat" where
  "clamp01 x = min (max x 0) 1"

text \<open>\<^verbatim>\<open>xs[i]\<close>, which is \<^verbatim>\<open>undefined\<close> out of range.\<close>

definition at_index :: "'a list \<Rightarrow> nat \<Rightarrow> 'a option" where
  "at_index xs i = (if i < length xs then Some (xs ! i) else None)"

text \<open>\<^verbatim>\<open>xs.sort((a, b) => key(b) - key(a))\<close>: a stable sort, largest key first.\<close>

definition sort_desc :: "('a \<Rightarrow> rat) \<Rightarrow> 'a list \<Rightarrow> 'a list" where
  "sort_desc key xs = sort_key (\<lambda>x. - key x) xs"

section \<open>Documents\<close>

text \<open>
  A property of a metadata object is absent, or present with the value \<^verbatim>\<open>null\<close> (or
  \<^verbatim>\<open>undefined\<close>), or present with a value. Reading it gives the same in the first two
  cases; spreading the object over another one does not: a property that is present
  replaces the one below it, whatever it holds. A row that the metadata store selects
  carries every column, \<^verbatim>\<open>null\<close> where the column is empty.
\<close>

datatype 'a property = Absent | Null | Value 'a

definition value_of :: "'a property \<Rightarrow> 'a option" where
  "value_of p = (case p of Value v \<Rightarrow> Some v | _ \<Rightarrow> None)"

text \<open>A row of the table \<^verbatim>\<open>legal_judgment_metadata\<close>, as the metadata search returns it; the
  same shape stands for the \<^verbatim>\<open>metadata\<close> object of a vector hit.\<close>

record legal_metadata =
  doc_id :: "string property"
  title :: "string property"
  citation :: "string property"
  court :: "string property"
  year :: "int property"
  case_type :: "string property"
  jurisdiction :: "string property"
  keyword_list :: "string list property"
  petitioner :: "string property"
  respondent :: "string property"

text \<open>A hit of the vector search.\<close>

record vector_result =
  vr_id :: "string option"
  vr_docId :: "string option"
  score :: "rat option"
  similarity :: "rat option"
  vr_text :: "string option"
  vr_title :: "string option"
  vr_metadata :: "legal_metadata option"

datatype source = Vector | Metadata | Hybrid

text \<open>An entry of the document map of the hybrid reranker. The last four fields are absent
  until the scoring step, or a reranker provider, writes them.\<close>

record candidate =
  docId :: string
  vectorScore :: rat
  metadataScore :: rat
  metadataMatch :: bool
  source :: source
  combinedScore :: rat
  doc_text :: "string option"
  doc_title :: "string option"
  metadata :: "legal_metadata option"
  semanticScore :: "rat option"
  hostedRerankerScore :: "rat option"
  metadataRelevanceScore :: "rat option"
  rerankerScore :: "rat option"

text \<open>The key of the sort by reranker score; the score is always present where it is used.\<close>

definition rerankerScore_of :: "candidate \<Rightarrow> rat" where
  "rerankerScore_of d = (case rerankerScore d of None \<Rightarrow> 0 | Some s \<Rightarrow> s)"

text \<open>\<^verbatim>\<open>documents.map(doc => ({ ...doc, rerankerScore: 0.5 }))\<close>.\<close>

definition default_scores :: "candidate list \<Rightarrow> candidate list" where
  "default_scores documents = map (\<lambda>doc. doc\<lparr>rerankerScore := Some (1/2)\<rparr>) documents"

text \<open>\<^verbatim>\<open>documents.map((doc, idx) => ({ ...doc, rerankerScore: score(idx) || 0.5 }))\<close>.\<close>

definition attach_scores :: "(nat \<Rightarrow> rat option) \<Rightarrow> candidate list \<Rightarrow> candidate list" where
  "attach_scores score_at documents =
     map (\<lambda>(doc, idx). doc\<lparr>rerankerScore := Some (or_num (score_at idx) (1/2))\<rparr>)
       (zip documents [0 ..< length documents])"

section \<open>Reranker providers\<close>

text \<open>
  What the outside world answers to a provider is an argument of the model. A call of
  \<^verbatim>\<open>fetch\<close> either rejects, or answers with a status that is not \<^verbatim>\<open>ok\<close>, or with a body
  that cannot be read (\<^verbatim>\<open>response.json()\<close> rejects, or a property is read from
  \<^verbatim>\<open>null\<close>), or with a body.
\<close>

datatype 'a response = NetworkError | HttpError | InvalidBody | Body 'a

subsection \<open>OpenAI\<close>

text \<open>
  The \<^verbatim>\<open>content\<close> of the first choice after \<^verbatim>\<open>JSON.parse\<close>: unparsable (also when the
  content is missing), or an object whose \<^verbatim>\<open>scores\<close> property is an array or not. An
  element of the array is kept as the number \<^verbatim>\<open>parseFloat\<close> reads from it, \<open>None\<close> for
  \<^verbatim>\<open>NaN\<close>; an infinite value is any number beyond the range it is clamped to.
\<close>

datatype json_scores = NoScoresArray | ScoresArray "rat option list"

datatype openai_content = Unparsable | Parsed json_scores

fun openai_parseScores :: "openai_content \<Rightarrow> nat \<Rightarrow> rat option list" where
  "openai_parseScores (Parsed (ScoresArray xs)) expectedCount =
     (let scores = List.map_filter (\<lambda>s. s) xs
      in if length scores = expectedCount then map (\<lambda>s. Some (clamp01 s)) scores
         else replicate expectedCount (Some (1/2)))"
| "openai_parseScores c expectedCount = replicate expectedCount (Some (1/2))"

definition openai_rerank :: "openai_content response \<Rightarrow> string \<Rightarrow> candidate list \<Rightarrow> candidate list" where
  "openai_rerank reply query documents =
     (if documents = [] then []
      else case reply of
        Body content \<Rightarrow>
          (let scores = openai_parseScores content (length documents);
               rankedDocs = attach_scores (\<lambda>idx. Option.bind (at_index scores idx) (\<lambda>s. s)) documents
           in sort_desc rerankerScore_of rankedDocs)
      | _ \<Rightarrow> default_scores documents)"

subsection \<open>Cohere\<close>

record cohere_result =
  index :: int
  relevance_score :: "rat option"

text \<open>The body is the \<^verbatim>\<open>results\<close> property of the answer, if there is one.\<close>

definition cohere_rerank ::
  "cohere_result list option response \<Rightarrow> string \<Rightarrow> candidate list \<Rightarrow> candidate list" where
  "cohere_rerank reply query documents =
     (if documents = [] then []
      else case reply of
        Body results \<Rightarrow>
          (let rankedDocs = attach_scores
                 (\<lambda>idx. case results of
                     None \<Rightarrow> None
                   | Some rs \<Rightarrow> (case find (\<lambda>r. index r = int idx) rs of
                                  None \<Rightarrow> None
                                | Some result \<Rightarrow> relevance_score result)) documents
           in sort_desc rerankerScore_of rankedDocs)
      | _ \<Rightarrow> default_scores documents)"

subsection \<open>Gemini\<close>

datatype gemini_reply = GenerateFailed | ResponseText string

text \<open>The first match of \<^verbatim>\<open>/\[([\d\s.,]+)\]/\<close>: its group.\<close>

definition is_score_char :: "char \<Rightarrow> bool" where
  "is_score_char c = (is_digit c \<or> is_space c \<or> c = CHR ''.'' \<or> c = CHR '','')"

fun match_bracket :: "string \<Rightarrow> string option" where
  "match_bracket [] = None"
| "match_bracket (c # cs) =
     (if c = CHR ''[''
         \<and> takeWhile is_score_char cs \<noteq> []
         \<and> (case dropWhile is_score_char cs of [] \<Rightarrow> False | r # _ \<Rightarrow> r = CHR '']'')
      then Some (takeWhile is_score_char cs)
      else match_bracket cs)"

text \<open>
  All matches of \<^verbatim>\<open>/\d+\.\d+/g\<close>, from left to right. The scan holds the digits read before
  the dot and, after a dot, the digits read behind it.
\<close>

fun match_decimals_from :: "string \<Rightarrow> string option \<Rightarrow> string \<Rightarrow> string list" where
  "match_decimals_from ip None [] = []"
| "match_decimals_from ip (Some fp) [] = (if fp \<noteq> [] then [ip @ ''.'' @ fp] else [])"
| "match_decimals_from ip None (c # cs) =
     (if is_digit c then match_decimals_from (ip @ [c]) None cs
      else if c = CHR ''.'' \<and> ip \<noteq> [] then match_decimals_from ip (Some []) cs
      else match_decimals_from [] None cs)"
| "match_decimals_from ip (Some fp) (c # cs) =
     (if is_digit c then match_decimals_from ip (Some (fp @ [c])) cs
      else if fp \<noteq> [] then (ip @ ''.'' @ fp) # match_decimals_from [] None cs
      else match_decimals_from [] None cs)"

definition match_decimals :: "string \<Rightarrow> string list" where
  "match_decimals s = match_decimals_from [] None s"

definition gemini_parseScores :: "string \<Rightarrow> nat \<Rightarrow> rat option list" where
  "gemini_parseScores txt expectedCount =
     (let bracketed =
            (case match_bracket txt of
               None \<Rightarrow> None
             | Some scoresStr \<Rightarrow>
                 (let scores = List.map_filter (\<lambda>s. parseFloat (trim s)) (split_comma scoresStr)
                  in if length scores = expectedCount
                     then Some (map (\<lambda>s. Some (clamp01 s)) scores) else None));
          numbers = match_decimals txt
      in case bracketed of
           Some scores \<Rightarrow> scores
         | None \<Rightarrow>
             if numbers \<noteq> [] \<and> length numbers \<ge> expectedCount
             then map (\<lambda>n. map_option clamp01 (parseFloat n)) (take expectedCount numbers)
             else replicate expectedCount (Some (1/2)))"

definition gemini_rerank :: "gemini_reply \<Rightarrow> string \<Rightarrow> candidate list \<Rightarrow> candidate list" where
  "gemini_rerank reply query documents =
     (if documents = [] then []
      else case reply of
        ResponseText txt \<Rightarrow>
          (let scores = gemini_parseScores txt (length documents);
               rankedDocs = attach_scores (\<lambda>idx. Option.bind (at_index scores idx) (\<lambda>s. s)) documents
           in sort_desc rerankerScore_of rankedDocs)
      | GenerateFailed \<Rightarrow> default_scores documents)"

subsection \<open>The provider in use\<close>

text \<open>A provider is built from an API key and a model name.\<close>

datatype provider =
  GeminiReranker string string
| CohereReranker string string
| OpenAIReranker string string

text \<open>What each of the three services would answer to one request.\<close>

record external =
  gemini_says :: gemini_reply
  cohere_says :: "cohere_result list option response"
  openai_says :: "openai_content response"

fun provider_rerank :: "provider \<Rightarrow> external \<Rightarrow> string \<Rightarrow> candidate list \<Rightarrow> candidate list" where
  "provider_rerank (GeminiReranker k m) ext query documents = gemini_rerank (gemini_says ext) query documents"
| "provider_rerank (CohereReranker k m) ext query documents = cohere_rerank (cohere_says ext) query documents"
| "provider_rerank (OpenAIReranker k m) ext query documents = openai_rerank (openai_says ext) query documents"

text \<open>The default of the parameter \<^verbatim>\<open>batchSize\<close> of each class.\<close>

fun defaultBatchSize :: "provider \<Rightarrow> nat" where
  "defaultBatchSize (GeminiReranker k m) = 10"
| "defaultBatchSize (CohereReranker k m) = 100"
| "defaultBatchSize (OpenAIReranker k m) = 10"

text \<open>
  The loop of \<^verbatim>\<open>rerankBatch\<close>, the same in the three classes. The answer to the \<open>k\<close>-th
  request is \<open>world k\<close>; the loop counts the requests and the pauses of 100 ms it makes. With
  a batch size of 0 the index never advances and the loop does not return.
\<close>

partial_function (option) rerankBatch_loop ::
  "(nat \<Rightarrow> candidate list \<Rightarrow> candidate list) \<Rightarrow> nat \<Rightarrow> candidate list
     \<Rightarrow> nat \<Rightarrow> nat \<Rightarrow> candidate list \<Rightarrow> nat \<Rightarrow> (candidate list \<times> nat) option" where
  "rerankBatch_loop rerank_nth batchSize documents i k results pauses =
     (if i < length documents
      then rerankBatch_loop rerank_nth batchSize documents (i + batchSize) (Suc k)
             (results @ rerank_nth k (take batchSize (drop i documents)))
             (if i + batchSize < length documents then Suc pauses else pauses)
      else Some (results, pauses))"

declare rerankBatch_loop.simps [code]

definition rerankBatch ::
  "provider \<Rightarrow> (nat \<Rightarrow> external) \<Rightarrow> string \<Rightarrow> candidate list \<Rightarrow> nat option
     \<Rightarrow> (candidate list \<times> nat) option" where
  "rerankBatch p world query documents batchSize =
     rerankBatch_loop (\<lambda>k batch. provider_rerank p (world k) query batch)
       (case batchSize of None \<Rightarrow> defaultBatchSize p | Some n \<Rightarrow> n) documents 0 0 [] 0"

section \<open>The reranker service\<close>

text \<open>The environment variables the service reads.\<close>

record env =
  RERANKER_PROVIDER :: "string option"
  RERANKER_ENABLED :: "string option"
  RERANKER_API_KEY :: "string option"
  RERANKER_MODEL :: "string option"
  GEMINI_API_KEY :: "string option"
  GEMINI_LLM_MODEL_PREF :: "string option"
  OPEN_AI_KEY :: "string option"

text \<open>The state of the singleton; every method takes it and returns it updated.\<close>

record reranker_service =
  provider :: "provider option"
  initialized :: bool

definition new_RerankerService :: reranker_service where
  "new_RerankerService = \<lparr>provider = None, initialized = False\<rparr>"

text \<open>
  \<^verbatim>\<open>initialize()\<close>. A missing key throws inside the \<^verbatim>\<open>try\<close>, and the handler resets the
  provider; an unknown provider name only logs.
\<close>

definition initialize :: "env \<Rightarrow> reranker_service \<Rightarrow> reranker_service" where
  "initialize e s =
     (if initialized s then s
      else
        let prov = map_option toLowerCase (RERANKER_PROVIDER e);
            enabled = (RERANKER_ENABLED e = Some ''true'')
        in if \<not> enabled then s\<lparr>initialized := True\<rparr>
           else if prov = Some ''gemini'' then
             (let geminiKey = or_prop (RERANKER_API_KEY e) (GEMINI_API_KEY e);
                  geminiModel = or_str (or_prop (RERANKER_MODEL e) (GEMINI_LLM_MODEL_PREF e))
                                  ''gemini-2.0-flash-lite''
              in if \<not> truthy_str geminiKey then s\<lparr>provider := None, initialized := True\<rparr>
                 else s\<lparr>provider := Some (GeminiReranker (or_str geminiKey []) geminiModel),
                        initialized := True\<rparr>)
           else if prov = Some ''cohere'' then
             (let cohereKey = RERANKER_API_KEY e;
                  cohereModel = or_str (RERANKER_MODEL e) ''rerank-english-v3.0''
              in if \<not> truthy_str cohereKey then s\<lparr>provider := None, initialized := True\<rparr>
                 else s\<lparr>provider := Some (CohereReranker (or_str cohereKey []) cohereModel),
                        initialized := True\<rparr>)
           else if prov = Some ''openai'' then
             (let openaiKey = or_prop (RERANKER_API_KEY e) (OPEN_AI_KEY e);
                  openaiModel = or_str (RERANKER_MODEL e) ''gpt-4o-mini''
              in if \<not> truthy_str openaiKey then s\<lparr>provider := None, initialized := True\<rparr>
                 else s\<lparr>provider := Some (OpenAIReranker (or_str openaiKey []) openaiModel),
                        initialized := True\<rparr>)
           else s\<lparr>initialized := True\<rparr>)"

definition isAvailable :: "env \<Rightarrow> reranker_service \<Rightarrow> bool \<times> reranker_service" where
  "isAvailable e s =
     (let s' = (if \<not> initialized s then initialize e s else s)
      in (provider s' \<noteq> None, s'))"

text \<open>\<^verbatim>\<open>rerank(query, documents)\<close> of the service. The providers of this model return on every
  answer, so the handler around the provider call has nothing to catch.\<close>

definition service_rerank ::
  "env \<Rightarrow> external \<Rightarrow> reranker_service \<Rightarrow> string \<Rightarrow> candidate list
     \<Rightarrow> candidate list \<times> reranker_service" where
  "service_rerank e ext s query documents =
     (let s' = (if \<not> initialized s then initialize e s else s)
      in case provider s' of
           None \<Rightarrow> (default_scores documents, s')
         | Some p \<Rightarrow> (provider_rerank p ext query documents, s'))"

text \<open>\<^verbatim>\<open>rerankBatch(query, documents, batchSize)\<close> of the service; each of the three classes
  has a \<^verbatim>\<open>rerankBatch\<close>. The result is \<open>None\<close> when the loop of the provider does not return.\<close>

definition service_rerankBatch ::
  "env \<Rightarrow> (nat \<Rightarrow> external) \<Rightarrow> reranker_service \<Rightarrow> string \<Rightarrow> candidate list \<Rightarrow> nat option
     \<Rightarrow> (candidate list \<times> reranker_service) option" where
  "service_rerankBatch e world s query documents batchSize =
     (let s' = (if \<not> initialized s then initialize e s else s)
      in case provider s' of
           None \<Rightarrow> Some (default_scores documents, s')
         | Some p \<Rightarrow> map_option (\<lambda>(docs, pauses). (docs, s'))
                       (rerankBatch p world query documents batchSize))"

section \<open>The hybrid reranker\<close>

record rerank_options =
  semanticWeight :: "rat option"
  rerankerWeight :: "rat option"
  metadataWeight :: "rat option"
  maxResults :: "nat option"
  diversityFactor :: "rat option"
  useHostedReranker :: "bool option"

definition no_options :: rerank_options where
  "no_options = \<lparr>semanticWeight = None, rerankerWeight = None, metadataWeight = None,
     maxResults = None, diversityFactor = None, useHostedReranker = None\<rparr>"

text \<open>\<^verbatim>\<open>tokenize(text)\<close>.\<close>

definition tokenize :: "string \<Rightarrow> string list" where
  "tokenize s =
     filter (\<lambda>term. length term > 2)
       (split_ws (map (\<lambda>c. if is_word c \<or> is_space c then c else CHR '' '') (toLowerCase s)))"

text \<open>\<^verbatim>\<open>normalizeTitle(title)\<close>; the first function is \<^verbatim>\<open>replace(/\s+/g, ' ')\<close>.\<close>

fun collapse_ws_from :: "bool \<Rightarrow> string \<Rightarrow> string" where
  "collapse_ws_from in_ws [] = []"
| "collapse_ws_from in_ws (c # cs) =
     (if is_space c
      then (if in_ws then collapse_ws_from True cs else CHR '' '' # collapse_ws_from True cs)
      else c # collapse_ws_from False cs)"

definition normalizeTitle :: "string \<Rightarrow> string" where
  "normalizeTitle t =
     take 50 (trim (collapse_ws_from False
       (filter (\<lambda>c. is_word c \<or> is_space c) (toLowerCase t))))"

text \<open>An array of words inside a template or a \<^verbatim>\<open>join\<close> is written with commas.\<close>

definition keyword_string :: "string list option \<Rightarrow> string" where
  "keyword_string ks = (case ks of None \<Rightarrow> [] | Some ws \<Rightarrow> join '','' ws)"

text \<open>\<^verbatim>\<open>calculateMetadataRelevance(metadata, queryTerms)\<close>.\<close>

definition field_matches :: "string option \<Rightarrow> string list \<Rightarrow> bool" where
  "field_matches f queryTerms =
     (truthy_str f \<and> list_ex (\<lambda>t. includes_str (toLowerCase (or_str f [])) t) queryTerms)"

definition calculateMetadataRelevance :: "legal_metadata \<Rightarrow> string list \<Rightarrow> rat" where
  "calculateMetadataRelevance md queryTerms =
     (let searchableText = toLowerCase (join '' ''
            [or_str (value_of (title md)) [], or_str (value_of (citation md)) [], or_str (value_of (court md)) [],
             or_str (value_of (case_type md)) [], or_str (value_of (jurisdiction md)) [],
             keyword_string (value_of (keyword_list md))]);
          metadataTerms = tokenize searchableText;
          matchCount = length (filter (\<lambda>term. term \<in> set metadataTerms) queryTerms);
          overlap = (if length queryTerms > 0
                     then (of_nat matchCount / of_nat (length queryTerms)) * (1/2) else 0);
          courtBoost = (if field_matches (value_of (court md)) queryTerms then 15/100 else 0);
          yearBoost = (case value_of (year md) of
                         None \<Rightarrow> 0
                       | Some y \<Rightarrow> if y \<noteq> 0 \<and> String y \<in> set queryTerms then 15/100 else 0);
          caseTypeBoost = (if field_matches (value_of (case_type md)) queryTerms then 1/10 else 0);
          citationBoost = (if field_matches (value_of (citation md)) queryTerms then 2/10 else 0)
      in min (1/2 + overlap + courtBoost + yearBoost + caseTypeBoost + citationBoost) 1)"

text \<open>\<^verbatim>\<open>formatMetadataAsText(metadata)\<close>.\<close>

definition labelled :: "string \<Rightarrow> string option \<Rightarrow> string list" where
  "labelled label f = (if truthy_str f then [label @ or_str f []] else [])"

definition formatMetadataAsText :: "legal_metadata \<Rightarrow> string" where
  "formatMetadataAsText md =
     join [CHR 0x0A]
       (labelled ''Title: '' (value_of (title md)) @
        labelled ''Citation: '' (value_of (citation md)) @
        labelled ''Court: '' (value_of (court md)) @
        (case value_of (year md) of None \<Rightarrow> [] | Some y \<Rightarrow> if y \<noteq> 0 then [''Year: '' @ String y] else []) @
        labelled ''Type: '' (value_of (case_type md)) @
        labelled ''Petitioner: '' (value_of (petitioner md)) @
        labelled ''Respondent: '' (value_of (respondent md)) @
        (case value_of (keyword_list md) of None \<Rightarrow> [] | Some ws \<Rightarrow> [''Keywords: '' @ join '','' ws]))"

text \<open>
  \<^verbatim>\<open>{ ...a, ...b }\<close> on the fields of a metadata object: a field that is present in
  \<open>b\<close>, also one that holds \<^verbatim>\<open>null\<close>, replaces the one of \<open>a\<close>. The same on two
  options objects, where a property is either absent or holds a value.
\<close>

definition spread_property :: "'a property \<Rightarrow> 'a property \<Rightarrow> 'a property" where
  "spread_property a b = (case b of Absent \<Rightarrow> a | _ \<Rightarrow> b)"


definition spread_metadata :: "legal_metadata option \<Rightarrow> legal_metadata \<Rightarrow> legal_metadata" where
  "spread_metadata a b =
     (case a of
        None \<Rightarrow> b
      | Some m \<Rightarrow>
          \<lparr>doc_id = spread_property (doc_id m) (doc_id b),
           title = spread_property (title m) (title b),
           citation = spread_property (citation m) (citation b),
           court = spread_property (court m) (court b),
           year = spread_property (year m) (year b),
           case_type = spread_property (case_type m) (case_type b),
           jurisdiction = spread_property (jurisdiction m) (jurisdiction b),
           keyword_list = spread_property (keyword_list m) (keyword_list b),
           petitioner = spread_property (petitioner m) (petitioner b),
           respondent = spread_property (respondent m) (respondent b)\<rparr>)"

text \<open>
  The document map is a \<^verbatim>\<open>Map\<close>: it keeps the order of first insertion, and setting a key
  that is present replaces its value in place (\<open>AList.update\<close>).

  Step 2 of \<^verbatim>\<open>rerank\<close>: one vector hit.
\<close>

definition vector_docId :: "vector_result \<Rightarrow> string option" where
  "vector_docId r = or_prop (vr_id r) (vr_docId r)"

definition baseScore :: "vector_result \<Rightarrow> rat" where
  "baseScore r = (if truthy_num (score r) then or_num (score r) 0 else or_num (similarity r) 0)"

definition add_vector ::
  "(string \<times> candidate) list \<Rightarrow> vector_result \<Rightarrow> (string \<times> candidate) list" where
  "add_vector documentMap r =
     (if \<not> truthy_str (vector_docId r) then documentMap
      else AList.update (or_str (vector_docId r) [])
             \<lparr>docId = or_str (vector_docId r) [], vectorScore = baseScore r, metadataScore = 0,
              metadataMatch = False, source = Vector, combinedScore = 0,
              doc_text = vr_text r, doc_title = vr_title r, metadata = vr_metadata r,
              semanticScore = None, hostedRerankerScore = None,
              metadataRelevanceScore = None, rerankerScore = None\<rparr>
             documentMap)"

text \<open>Step 3: one row of the metadata search.\<close>

definition add_metadata ::
  "string list \<Rightarrow> (string \<times> candidate) list \<Rightarrow> legal_metadata \<Rightarrow> (string \<times> candidate) list" where
  "add_metadata queryTerms documentMap r =
     (if \<not> truthy_str (value_of (doc_id r)) then documentMap
      else
        let d = or_str (value_of (doc_id r)) [];
            metadataRelevance = calculateMetadataRelevance r queryTerms
        in case map_of documentMap d of
             Some existing \<Rightarrow>
               AList.update d
                 (existing\<lparr>metadataScore := metadataRelevance, metadataMatch := True,
                    metadata := Some (spread_metadata (metadata existing) r), source := Hybrid\<rparr>)
                 documentMap
           | None \<Rightarrow>
               AList.update d
                 \<lparr>docId = d, vectorScore = 0, metadataScore = metadataRelevance,
                  metadataMatch = True, source = Metadata, combinedScore = 0,
                  doc_text = Some (formatMetadataAsText r),
                  doc_title = Some (or_str (value_of (title r)) ''Untitled''), metadata = Some r,
                  semanticScore = None, hostedRerankerScore = None,
                  metadataRelevanceScore = None, rerankerScore = None\<rparr>
                 documentMap)"

text \<open>Steps 1 to 3: the document map after both lists are processed.\<close>

definition merge_results ::
  "vector_result list \<Rightarrow> legal_metadata list \<Rightarrow> string \<Rightarrow> (string \<times> candidate) list" where
  "merge_results vectorResults metadataResults query =
     foldl (add_metadata (tokenize (toLowerCase query)))
       (foldl add_vector [] vectorResults) metadataResults"

text \<open>Step 4: the scores the hosted reranker returned, by document id.\<close>

definition store_scores :: "candidate list \<Rightarrow> (string \<rightharpoonup> rat)" where
  "store_scores rerankedDocs =
     foldl (\<lambda>m doc. if docId doc \<noteq> [] then m(docId doc \<mapsto> or_num (rerankerScore doc) (1/2)) else m)
       Map.empty rerankedDocs"

text \<open>Step 5: the combined score of one document.\<close>

definition score_document ::
  "rat \<Rightarrow> rat \<Rightarrow> rat \<Rightarrow> rat \<Rightarrow> bool \<Rightarrow> (string \<rightharpoonup> rat) \<Rightarrow> string \<times> candidate \<Rightarrow> candidate" where
  "score_document semanticW rerankerW metadataW diversityF moreMetadata rerankerScores entry =
     (let doc = snd entry;
          semantic = clamp01 (vectorScore doc);
          metadataS = clamp01 (metadataScore doc);
          hosted = or_num (rerankerScores (fst entry)) (1/2);
          combined = semantic * semanticW + hosted * rerankerW + metadataS * metadataW;
          combined' = (if source doc = Metadata \<and> moreMetadata
                       then combined * (1 - diversityF) else combined)
      in doc\<lparr>combinedScore := min combined' 1, semanticScore := Some semantic,
             hostedRerankerScore := Some hosted, metadataRelevanceScore := Some metadataS\<rparr>)"

text \<open>\<^verbatim>\<open>applyDiversity(results, diversityFactor)\<close>: the loop, then the whole function.\<close>

definition diversity_title :: "candidate \<Rightarrow> string" where
  "diversity_title r =
     (if truthy_str (doc_title r) then or_str (doc_title r) []
      else case metadata r of None \<Rightarrow> [] | Some m \<Rightarrow> or_str (value_of (title m)) [])"

definition diversity_court :: "candidate \<Rightarrow> string" where
  "diversity_court r = (case metadata r of None \<Rightarrow> [] | Some m \<Rightarrow> or_str (value_of (court m)) [])"

definition diversityPenalty :: "rat \<Rightarrow> string set \<Rightarrow> string set \<Rightarrow> candidate \<Rightarrow> rat" where
  "diversityPenalty diversityF seenTitles seenCourts r =
     (if diversity_title r \<noteq> [] \<and> normalizeTitle (diversity_title r) \<in> seenTitles
      then diversityF else 0)
     + (if diversity_court r \<noteq> [] \<and> diversity_court r \<in> seenCourts
        then diversityF * (1/2) else 0)"

fun diversity_loop :: "rat \<Rightarrow> string set \<Rightarrow> string set \<Rightarrow> candidate list \<Rightarrow> candidate list" where
  "diversity_loop diversityF seenTitles seenCourts [] = []"
| "diversity_loop diversityF seenTitles seenCourts (r # rs) =
     r\<lparr>combinedScore :=
         max 0 (combinedScore r - diversityPenalty diversityF seenTitles seenCourts r)\<rparr>
     # diversity_loop diversityF
         (if diversity_title r \<noteq> [] then insert (normalizeTitle (diversity_title r)) seenTitles
          else seenTitles)
         (if diversity_court r \<noteq> [] then insert (diversity_court r) seenCourts else seenCourts)
         rs"

definition applyDiversity :: "candidate list \<Rightarrow> rat \<Rightarrow> candidate list" where
  "applyDiversity results diversityF =
     (if diversityF \<le> 0 \<or> length results \<le> 1 then results
      else sort_desc combinedScore (diversity_loop diversityF {} {} results))"

text \<open>Step 4 as a whole: the hosted reranker is asked only when it is wanted and available.\<close>

definition hosted_scores ::
  "env \<Rightarrow> external \<Rightarrow> reranker_service \<Rightarrow> bool \<Rightarrow> string \<Rightarrow> candidate list
     \<Rightarrow> (string \<rightharpoonup> rat) \<times> reranker_service" where
  "hosted_scores e ext s useHosted query allDocs =
     (if useHosted
      then (let (available, s1) = isAvailable e s
            in if available
               then (let (rerankedDocs, s2) = service_rerank e ext s1 query allDocs
                     in (store_scores rerankedDocs, s2))
               else (Map.empty, s1))
      else (Map.empty, s))"

text \<open>Steps 1 to 6: the documents scored and sorted, before the diversity pass.\<close>

definition scored_results ::
  "env \<Rightarrow> external \<Rightarrow> reranker_service \<Rightarrow> vector_result list \<Rightarrow> legal_metadata list \<Rightarrow> string
     \<Rightarrow> rerank_options \<Rightarrow> candidate list \<times> reranker_service" where
  "scored_results e ext s vectorResults metadataResults query options =
     (let semanticW = (case semanticWeight options of None \<Rightarrow> 7/10 | Some w \<Rightarrow> w);
          rerankerW = (case rerankerWeight options of None \<Rightarrow> 2/10 | Some w \<Rightarrow> w);
          metadataW = (case metadataWeight options of None \<Rightarrow> 1/10 | Some w \<Rightarrow> w);
          diversityF = (case diversityFactor options of None \<Rightarrow> 1/10 | Some f \<Rightarrow> f);
          useHosted = (case useHostedReranker options of None \<Rightarrow> True | Some b \<Rightarrow> b);
          documentMap = merge_results vectorResults metadataResults query;
          (rerankerScores, s') = hosted_scores e ext s useHosted query (map snd documentMap);
          scoredResults = map (score_document semanticW rerankerW metadataW diversityF
                                 (length metadataResults > length vectorResults) rerankerScores)
                            documentMap
      in (sort_desc combinedScore scoredResults, s'))"

text \<open>
  \<^verbatim>\<open>HybridReranker.rerank(vectorResults, metadataResults, query, options)\<close>. Nothing
  inside its \<^verbatim>\<open>try\<close> throws on arguments of these types, so the handler that falls back to
  the vector hits is not reached.
\<close>

definition rerank ::
  "env \<Rightarrow> external \<Rightarrow> reranker_service \<Rightarrow> vector_result list \<Rightarrow> legal_metadata list \<Rightarrow> string
     \<Rightarrow> rerank_options \<Rightarrow> candidate list \<times> reranker_service" where
  "rerank e ext s vectorResults metadataResults query options =
     (let (scoredResults, s') = scored_results e ext s vectorResults metadataResults query options;
          diversityF = (case diversityFactor options of None \<Rightarrow> 1/10 | Some f \<Rightarrow> f);
          maxR = (case maxResults options of None \<Rightarrow> 10 | Some n \<Rightarrow> n)
      in (take maxR (applyDiversity scoredResults diversityF), s'))"

section \<open>The hybrid search manager\<close>

subsection \<open>The patterns of the filter extraction\<close>

text \<open>
  The regular expressions of \<^verbatim>\<open>extractFiltersFromQuery\<close> are of five shapes: a literal
  matched without regard to case (\<^verbatim>\<open>/supreme court/i\<close>), a literal between word boundaries
  (\<^verbatim>\<open>/\bpil\b/i\<close>), the pattern \<^verbatim>\<open>/high court of ([a-z\s]+)/i\<close>, the year pattern
  \<^verbatim>\<open>/\b(19\d{2}|20\d{2})\b/\<close>, and an alternative of two patterns. Literals are written
  in lower case.
\<close>

datatype pattern =
  Literal string
| WordLiteral string
| HighCourtOf
| Year
| Alternative pattern pattern

text \<open>There is a word boundary in front of a word character when no word character stands
  before it, and behind one when no word character follows.\<close>

definition word_before :: "char option \<Rightarrow> bool" where
  "word_before prev = (case prev of None \<Rightarrow> False | Some c \<Rightarrow> is_word c)"

definition boundary_behind :: "string \<Rightarrow> bool" where
  "boundary_behind rest = (case rest of [] \<Rightarrow> True | r # _ \<Rightarrow> \<not> is_word r)"

definition is_year_prefix :: "string \<Rightarrow> bool" where
  "is_year_prefix s =
     (case s of
        a # b # c # d # rest \<Rightarrow>
          (if (if a = CHR ''1'' then b = CHR ''9'' else if a = CHR ''2'' then b = CHR ''0'' else False)
           then (if is_digit c then (if is_digit d then boundary_behind rest else False) else False)
           else False)
      | _ \<Rightarrow> False)"

text \<open>
  The length of the match of a pattern at the start of a string, if there is one. The string
  has been lowered, which is how the flag \<^verbatim>\<open>i\<close> compares letters; \<open>prev\<close> is the character
  in front of the string.
\<close>

fun match_at :: "pattern \<Rightarrow> char option \<Rightarrow> string \<Rightarrow> nat option" where
  "match_at (Literal l) prev s = (if startsWith s l then Some (length l) else None)"
| "match_at (WordLiteral l) prev s =
     (if startsWith s l
      then (if \<not> word_before prev \<and> boundary_behind (drop (length l) s)
            then Some (length l) else None)
      else None)"
| "match_at HighCourtOf prev s =
     (if startsWith s ''high court of ''
      then (let name = takeWhile (\<lambda>c. is_lower c \<or> is_space c) (drop 14 s)
            in if name \<noteq> [] then Some (14 + length name) else None)
      else None)"
| "match_at Year prev s =
     (if is_year_prefix s then (if word_before prev then None else Some 4) else None)"
| "match_at (Alternative a b) prev s =
     (case match_at a prev s of Some n \<Rightarrow> Some n | None \<Rightarrow> match_at b prev s)"

text \<open>The leftmost match in a lowered string: where it starts and how long it is.\<close>

fun regex_search_from :: "pattern \<Rightarrow> nat \<Rightarrow> char option \<Rightarrow> string \<Rightarrow> (nat \<times> nat) option" where
  "regex_search_from p i prev [] = map_option (\<lambda>n. (i, n)) (match_at p prev [])"
| "regex_search_from p i prev (c # cs) =
     (case match_at p prev (c # cs) of
        Some n \<Rightarrow> Some (i, n)
      | None \<Rightarrow> regex_search_from p (Suc i) (Some c) cs)"

text \<open>\<^verbatim>\<open>query.match(pattern)\<close>: the text of the leftmost match, \<open>None\<close> for \<^verbatim>\<open>null\<close>.\<close>

definition regex_match :: "pattern \<Rightarrow> string \<Rightarrow> string option" where
  "regex_match p s =
     map_option (\<lambda>(i, n). take n (drop i s)) (regex_search_from p 0 None (toLowerCase s))"

text \<open>\<^verbatim>\<open>pattern.test(query)\<close>.\<close>

definition regex_test :: "pattern \<Rightarrow> string \<Rightarrow> bool" where
  "regex_test p s = (regex_search_from p 0 None (toLowerCase s) \<noteq> None)"

text \<open>\<^verbatim>\<open>s.replace(y, '')\<close> with a string \<open>y\<close>: the first occurrence is removed.\<close>

fun replace_first :: "string \<Rightarrow> string \<Rightarrow> string" where
  "replace_first y [] = []"
| "replace_first y (c # cs) =
     (if startsWith (c # cs) y then drop (length y) (c # cs) else c # replace_first y cs)"

text \<open>\<^verbatim>\<open>s.replace(new RegExp(v, 'gi'), '')\<close> for a string \<open>v\<close> of letters and white space: every
  occurrence of \<open>v\<close>, without regard to case, is removed, from left to right. The first
  function takes \<open>v\<close> and a copy of the string, both lowered.\<close>

function remove_all :: "string \<Rightarrow> string \<Rightarrow> string \<Rightarrow> string" where
  "remove_all v [] s = s"
| "remove_all v (l # ls) s =
     (if v \<noteq> [] \<and> startsWith (l # ls) v
      then remove_all v (drop (length v) (l # ls)) (drop (length v) s)
      else take 1 s @ remove_all v ls (drop 1 s))"
  by pat_completeness auto
termination
  by (relation "measure (\<lambda>(v, ls, s). length ls)") (auto simp: neq_Nil_conv)

definition replace_all_ci :: "string \<Rightarrow> string \<Rightarrow> string" where
  "replace_all_ci v s = remove_all (toLowerCase v) (toLowerCase s) s"

subsection \<open>The filters\<close>

record search_filters =
  f_year :: "int option"
  f_court :: "string option"
  f_case_type :: "string option"
  f_jurisdiction :: "string option"
  f_bench_type :: "string option"
  f_fulltext :: "string option"
  f_judge :: "string option"
  f_citation :: "string option"
  f_keywords :: "string list option"


definition courtPatterns :: "(pattern \<times> string option) list" where
  "courtPatterns =
     [(Literal ''supreme court'', Some ''Supreme Court of India''),
      (HighCourtOf, None),
      (Literal ''delhi high court'', Some ''High Court of Delhi''),
      (Literal ''bombay high court'', Some ''High Court of Bombay''),
      (Literal ''calcutta high court'', Some ''High Court of Calcutta''),
      (Literal ''madras high court'', Some ''High Court of Madras'')]"

definition caseTypePatterns :: "(pattern \<times> string) list" where
  "caseTypePatterns =
     [(Literal ''criminal appeal'', ''Criminal Appeal''),
      (Literal ''civil appeal'', ''Civil Appeal''),
      (Literal ''writ petition'', ''Writ Petition''),
      (Alternative (Literal ''special leave petition'') (Literal ''slp''),
         ''Special Leave Petition''),
      (Alternative (WordLiteral ''pil'') (Literal ''public interest litigation''), ''PIL''),
      (Literal ''bail'', ''Bail Application'')]"

text \<open>The two loops over the pattern tables; each stops at the first pattern that matches.
  For a court pattern without a value the court is the matched text.\<close>

fun first_court :: "(pattern \<times> string option) list \<Rightarrow> string \<Rightarrow> string option" where
  "first_court [] query = None"
| "first_court ((p, v) # rest) query =
     (case regex_match p query of
        Some m \<Rightarrow> Some (case v of None \<Rightarrow> m | Some name \<Rightarrow> name)
      | None \<Rightarrow> first_court rest query)"

fun first_case_type :: "(pattern \<times> string) list \<Rightarrow> string \<Rightarrow> string option" where
  "first_case_type [] query = None"
| "first_case_type ((p, v) # rest) query =
     (if regex_test p query then Some v else first_case_type rest query)"

text \<open>The query after the extracted year, court and case type are taken out of it.\<close>

definition cleanedQuery :: "int option \<Rightarrow> string option \<Rightarrow> string option \<Rightarrow> string \<Rightarrow> string" where
  "cleanedQuery yr crt ctype query =
     (let q1 = (case yr of None \<Rightarrow> query
                | Some y \<Rightarrow> if y \<noteq> 0 then replace_first (String y) query else query);
          q2 = (if truthy_str crt then replace_all_ci (or_str crt []) q1 else q1);
          q3 = (if truthy_str ctype then replace_all_ci (or_str ctype []) q2 else q2)
      in trim q3)"

text \<open>\<^verbatim>\<open>extractFiltersFromQuery(query)\<close>.\<close>

definition extractFiltersFromQuery :: "string \<Rightarrow> search_filters" where
  "extractFiltersFromQuery query =
     (let yr = map_option (\<lambda>m. int (digits_value m)) (regex_match Year query);
          crt = first_court courtPatterns query;
          ctype = first_case_type caseTypePatterns query;
          jur = (if regex_test (Literal ''criminal'') query then Some ''Criminal''
                 else if regex_test (Literal ''civil'') query then Some ''Civil'' else None);
          bench = (if regex_test (Literal ''constitution bench'') query
                   then Some ''Constitution Bench''
                   else if regex_test (Literal ''division bench'') query
                   then Some ''Division Bench'' else None);
          cleaned = cleanedQuery yr crt ctype query
      in \<lparr>f_year = yr, f_court = crt, f_case_type = ctype, f_jurisdiction = jur,
          f_bench_type = bench,
          f_fulltext = (if length cleaned > 5 then Some cleaned else None),
          f_judge = None, f_citation = None, f_keywords = None\<rparr>)"

subsection \<open>The two searches\<close>

text \<open>What is thrown: a \<^verbatim>\<open>TypeError\<close> when a property of \<^verbatim>\<open>undefined\<close> is read, or
  the rejection of a client.\<close>

datatype js_error = TypeError | ClientFailure

record workspace =
  ws_id :: nat
  slug :: string

record vector_request =
  namespace :: string
  input :: "string option"
  req_threshold :: rat
  req_topN :: nat


text \<open>The vector database answers a request with an object that may lack \<^verbatim>\<open>sources\<close>, or
  rejects; the metadata store answers a search with rows and a lookup with a row or
  \<^verbatim>\<open>null\<close>, or rejects.\<close>

type_synonym vector_client = "vector_request \<Rightarrow> js_error + vector_result list option"






subsection \<open>Enrichment\<close>

text \<open>A result of the search: a candidate, with the full row of the metadata store when the
  enrichment found one.\<close>

record search_result = candidate +
  legalMetadata :: "legal_metadata option"





subsection \<open>The search\<close>

record search_args =
  query :: "string option"
  search_workspace :: "workspace option"
  vectorDbInstance :: "vector_client option"
  similarityThreshold :: "rat option"
  topN :: "nat option"
  filters :: search_filters
  rerankOptions :: rerank_options






section \<open>Example inputs\<close>

text \<open>An environment in which no variable is set, and services that do not answer.\<close>

definition unset_env :: env where
  "unset_env = \<lparr>RERANKER_PROVIDER = None, RERANKER_ENABLED = None, RERANKER_API_KEY = None,
     RERANKER_MODEL = None, GEMINI_API_KEY = None, GEMINI_LLM_MODEL_PREF = None,
     OPEN_AI_KEY = None\<rparr>"

definition silent :: external where
  "silent = \<lparr>gemini_says = GenerateFailed, cohere_says = NetworkError,
     openai_says = NetworkError\<rparr>"

definition empty_row :: legal_metadata where
  "empty_row = \<lparr>doc_id = Absent, title = Absent, citation = Absent, court = Absent,
     year = Absent, case_type = Absent, jurisdiction = Absent, keyword_list = Absent,
     petitioner = Absent, respondent = Absent\<rparr>"

definition empty_hit :: vector_result where
  "empty_hit = \<lparr>vr_id = None, vr_docId = None, score = None, similarity = None,
     vr_text = None, vr_title = None, vr_metadata = None\<rparr>"

text \<open>The weights the search manager passes to the hybrid reranker.\<close>

definition manager_weights :: rerank_options where
  "manager_weights = no_options\<lparr>semanticWeight := Some (6/10), rerankerWeight := Some (3/10),
     metadataWeight := Some (1/10)\<rparr>"

text \<open>The row of the metadata-only scenario.\<close>

definition scenario_row :: legal_metadata where
  "scenario_row = empty_row\<lparr>doc_id := Value ''d1'', court := Value ''Supreme Court of India'',
     year := Value 2024, title := Value ''A v. B''\<rparr>"

text \<open>The hit and the row of the hybrid scenario.\<close>

definition hit_d1 :: vector_result where
  "hit_d1 = empty_hit\<lparr>vr_id := Some ''d1'', score := Some (9/10)\<rparr>"

definition row_d1 :: legal_metadata where
  "row_d1 = empty_row\<lparr>doc_id := Value ''d1'', court := Value ''X''\<rparr>"

text \<open>A reranker weight below zero.\<close>

definition negative_weight :: rerank_options where
  "negative_weight = no_options\<lparr>rerankerWeight := Some (- 2)\<rparr>"

text \<open>A second metadata row, and a diversity factor above 1.\<close>

definition row_d2 :: legal_metadata where
  "row_d2 = empty_row\<lparr>doc_id := Value ''d2'', court := Value ''Y''\<rparr>"

definition steep_diversity :: rerank_options where
  "steep_diversity = no_options\<lparr>diversityFactor := Some 2\<rparr>"

text \<open>Two vector hits whose titles normalize to the same string.\<close>

definition hit_a :: vector_result where
  "hit_a = empty_hit\<lparr>vr_id := Some ''a'', score := Some (9/10), vr_title := Some ''Same Title''\<rparr>"

definition hit_b :: vector_result where
  "hit_b = empty_hit\<lparr>vr_id := Some ''b'', score := Some (8/10), vr_title := Some ''same  title!''\<rparr>"

text \<open>Two documents, and answers of the services to a request about them.\<close>

definition doc_a :: candidate where
  "doc_a = \<lparr>docId = ''a'', vectorScore = 0, metadataScore = 0, metadataMatch = False,
     source = Vector, combinedScore = 0, doc_text = None, doc_title = None, metadata = None,
     semanticScore = None, hostedRerankerScore = None, metadataRelevanceScore = None,
     rerankerScore = None\<rparr>"

definition doc_b :: candidate where
  "doc_b = doc_a\<lparr>docId := ''b''\<rparr>"

text \<open>Cohere answers with a relevance score of 1.5 for the first document.\<close>

definition cohere_overshoots :: external where
  "cohere_overshoots = silent\<lparr>cohere_says :=
     Body (Some [\<lparr>index = 0, relevance_score = Some (3/2)\<rparr>])\<rparr>"

text \<open>OpenAI scores the first document 0.1 and the second 0.9, on every request.\<close>

definition openai_prefers_second :: "nat \<Rightarrow> external" where
  "openai_prefers_second k = silent\<lparr>openai_says :=
     Body (Parsed (ScoresArray [Some (1/10), Some (9/10)]))\<rparr>"

text \<open>OpenAI scores the first document 0 and the second 0.9.\<close>

definition openai_zero_first :: external where
  "openai_zero_first = silent\<lparr>openai_says :=
     Body (Parsed (ScoresArray [Some 0, Some (9/10)]))\<rparr>"

text \<open>No service ever answers.\<close>

definition silent_world :: "nat \<Rightarrow> external" where
  "silent_world k = silent"

text \<open>An environment that enables the reranker and names a provider that does not exist.\<close>

definition misspelt_env :: env where
  "misspelt_env = unset_env\<lparr>RERANKER_ENABLED := Some ''true'', RERANKER_PROVIDER := Some ''Mistral'',
     RERANKER_API_KEY := Some ''key''\<rparr>"









section \<open>Predicates used in the statements\<close>

text \<open>A list of scores, some of them \<^verbatim>\<open>NaN\<close>, all others in the unit interval.\<close>

definition unit_scores :: "rat option list \<Rightarrow> bool" where
  "unit_scores xs = list_all (\<lambda>x. case x of None \<Rightarrow> True | Some v \<Rightarrow> 0 \<le> v \<and> v \<le> 1) xs"

text \<open>The Cohere service answers with no negative relevance score.\<close>

definition nonneg_relevance :: "external \<Rightarrow> bool" where
  "nonneg_relevance ext =
     (case cohere_says ext of
        Body (Some rs) \<Rightarrow>
          list_all (\<lambda>r. case relevance_score r of None \<Rightarrow> True | Some v \<Rightarrow> 0 \<le> v) rs
      | _ \<Rightarrow> True)"

text \<open>The options hold no negative weight and no diversity factor above 1.\<close>

definition nonneg_weights :: "rerank_options \<Rightarrow> bool" where
  "nonneg_weights options =
     ((case semanticWeight options of None \<Rightarrow> True | Some w \<Rightarrow> 0 \<le> w)
      \<and> (case rerankerWeight options of None \<Rightarrow> True | Some w \<Rightarrow> 0 \<le> w)
      \<and> (case metadataWeight options of None \<Rightarrow> True | Some w \<Rightarrow> 0 \<le> w)
      \<and> (case diversityFactor options of None \<Rightarrow> True | Some f \<Rightarrow> f \<le> 1))"

text \<open>The ids under which the vector hits and the metadata rows enter the document map, in
  the order of the lists, and the last vector hit of an id.\<close>

definition vector_ids :: "vector_result list \<Rightarrow> string list" where
  "vector_ids vs =
     map (\<lambda>r. or_str (vector_docId r) []) (filter (\<lambda>r. truthy_str (vector_docId r)) vs)"

definition metadata_ids :: "legal_metadata list \<Rightarrow> string list" where
  "metadata_ids ms =
     map (\<lambda>r. or_str (value_of (doc_id r)) []) (filter (\<lambda>r. truthy_str (value_of (doc_id r))) ms)"

definition last_hit :: "string \<Rightarrow> vector_result list \<Rightarrow> vector_result option" where
  "last_hit k vs =
     (let hits = filter (\<lambda>r. truthy_str (vector_docId r) \<and> or_str (vector_docId r) [] = k) vs
      in if hits = [] then None else Some (last hits))"

text \<open>What holds of the document map while the two lists are merged into it: \<open>vs\<close> are the
  vector hits and \<open>mids\<close> the ids of the metadata rows processed so far.\<close>

definition merge_inv ::
  "vector_result list \<Rightarrow> string list \<Rightarrow> (string \<times> candidate) list \<Rightarrow> bool" where
  "merge_inv vs mids m =
     (distinct (map fst m)
      \<and> fst ` set m = set (vector_ids vs) \<union> set mids
      \<and> (\<forall>k c. map_of m k = Some c \<longrightarrow>
            docId c = k
            \<and> (k \<in> set (vector_ids vs) \<longrightarrow>
                 (\<exists>r. last_hit k vs = Some r \<and> vectorScore c = baseScore r)
                 \<and> source c = (if k \<in> set mids then Hybrid else Vector))
            \<and> (k \<notin> set (vector_ids vs) \<longrightarrow>
                 vectorScore c = 0 \<and> (count_list mids k = 1 \<longrightarrow> source c = Metadata))))"

text \<open>The normalized titles and the courts of a list of candidates: what the diversity pass
  has seen after it went through the list.\<close>

definition seen_titles :: "candidate list \<Rightarrow> string set" where
  "seen_titles rs =
     set (map (\<lambda>r. normalizeTitle (diversity_title r)) (filter (\<lambda>r. diversity_title r \<noteq> []) rs))"

definition seen_courts :: "candidate list \<Rightarrow> string set" where
  "seen_courts rs = set (filter (\<lambda>c. c \<noteq> []) (map diversity_court rs))"

text \<open>The penalty of the candidate at position \<open>i\<close>: the diversity factor if its normalized
  title was seen before it, and half the factor if its court was.\<close>

definition penalty_at :: "rat \<Rightarrow> candidate list \<Rightarrow> nat \<Rightarrow> rat" where
  "penalty_at df rs i =
     (if diversity_title (rs ! i) \<noteq> []
         \<and> normalizeTitle (diversity_title (rs ! i)) \<in> seen_titles (take i rs)
      then df else 0)
     + (if diversity_court (rs ! i) \<noteq> [] \<and> diversity_court (rs ! i) \<in> seen_courts (take i rs)
        then df * (1/2) else 0)"

text \<open>The candidate at position \<open>i\<close> with its penalty subtracted, not below 0.\<close>

definition penalized :: "rat \<Rightarrow> candidate list \<Rightarrow> nat \<Rightarrow> candidate" where
  "penalized df rs i = (rs ! i)\<lparr>combinedScore := max 0 (combinedScore (rs ! i) - penalty_at df rs i)\<rparr>"

text \<open>The options resolved to their defaults.\<close>

definition diversityFactor_of :: "rerank_options \<Rightarrow> rat" where
  "diversityFactor_of options = (case diversityFactor options of None \<Rightarrow> 1/10 | Some f \<Rightarrow> f)"

definition maxResults_of :: "rerank_options \<Rightarrow> nat" where
  "maxResults_of options = (case maxResults options of None \<Rightarrow> 10 | Some n \<Rightarrow> n)"

text \<open>A list cut into consecutive chunks of \<open>n\<close> elements, the last one possibly shorter.\<close>

function chunks :: "nat \<Rightarrow> 'a list \<Rightarrow> 'a list list" where
  "chunks n xs = (if n = 0 \<or> xs = [] then [] else take n xs # chunks n (drop n xs))"
  by pat_completeness auto
termination
  by (relation "measure (\<lambda>(n, xs). length xs)") auto

declare chunks.simps [simp del]

text \<open>The three ways in which the configuration leaves the service without a provider.\<close>

definition provider_name :: "env \<Rightarrow> string option" where
  "provider_name e = map_option toLowerCase (RERANKER_PROVIDER e)"

definition reranker_disabled :: "env \<Rightarrow> bool" where
  "reranker_disabled e = (RERANKER_ENABLED e \<noteq> Some ''true'')"

definition unknown_provider :: "env \<Rightarrow> bool" where
  "unknown_provider e =
     (provider_name e \<noteq> Some ''gemini'' \<and> provider_name e \<noteq> Some ''cohere''
      \<and> provider_name e \<noteq> Some ''openai'')"

definition missing_key :: "env \<Rightarrow> bool" where
  "missing_key e =
     ((provider_name e = Some ''gemini''
        \<and> \<not> truthy_str (RERANKER_API_KEY e) \<and> \<not> truthy_str (GEMINI_API_KEY e))
      \<or> (provider_name e = Some ''cohere'' \<and> \<not> truthy_str (RERANKER_API_KEY e))
      \<or> (provider_name e = Some ''openai''
        \<and> \<not> truthy_str (RERANKER_API_KEY e) \<and> \<not> truthy_str (OPEN_AI_KEY e)))"

section \<open>Evaluation\<close>

text \<open>The same function on the bits of a character, for evaluation: the upper-case letters
  are the characters 010xxxxx with xxxxx from 1 to 26, and lowering sets the sixth bit.\<close>

lemma toLowerChar_bits [code]:
  "toLowerChar (Char b0 b1 b2 b3 b4 b5 b6 b7) =
     (if b6 \<and> \<not> b5 \<and> \<not> b7 \<and> (b0 \<or> b1 \<or> b2 \<or> b3 \<or> b4) \<and> \<not> (b4 \<and> b3 \<and> (b2 \<or> (b1 \<and> b0)))
      then Char b0 b1 b2 b3 b4 True b6 b7 else Char b0 b1 b2 b3 b4 b5 b6 b7)"
  by (cases b0; cases b1; cases b2; cases b3; cases b4; cases b5; cases b6; cases b7;
      simp add: toLowerChar_def upper_chars_def lower_chars_def)

section \<open>Scores of the providers and of the fusion\<close>


lemma or_num_nonzero: "d \<noteq> 0 \<Longrightarrow> or_num x d \<noteq> 0"
  by (simp add: or_num_def split: option.splits)

lemma or_num_zero: "or_num (Some 0) d = d"
  by (simp add: or_num_def)

lemma clamp01_bounds: "0 \<le> clamp01 x \<and> clamp01 x \<le> 1"
  by (simp add: clamp01_def)

lemma set_sort_desc: "set (sort_desc key xs) = set xs"
  by (simp add: sort_desc_def)

lemma length_sort_desc: "length (sort_desc key xs) = length xs"
  by (simp add: sort_desc_def)

lemma sorted_sort_desc: "sorted (map (\<lambda>x. - key x) (sort_desc key xs))"
  by (simp add: sort_desc_def)

lemma length_attach_scores: "length (attach_scores f documents) = length documents"
  by (simp add: attach_scores_def)

lemma length_default_scores: "length (default_scores documents) = length documents"
  by (simp add: default_scores_def)

lemma attach_scores_nth:
  "i < length documents \<Longrightarrow>
   attach_scores f documents ! i = (documents ! i)\<lparr>rerankerScore := Some (or_num (f i) (1/2))\<rparr>"
  by (simp add: attach_scores_def)

lemma in_attach_scores:
  assumes "d \<in> set (attach_scores f documents)"
  shows "\<exists>i < length documents. d = (documents ! i)\<lparr>rerankerScore := Some (or_num (f i) (1/2))\<rparr>"
proof -
  from assms obtain i where "i < length (attach_scores f documents)" "d = attach_scores f documents ! i"
    by (auto simp: in_set_conv_nth)
  then show ?thesis
    using attach_scores_nth [of i documents f] by (auto simp: length_attach_scores)
qed

lemma in_default_scores:
  "d \<in> set (default_scores documents) \<Longrightarrow> rerankerScore d = Some (1/2)"
  by (auto simp: default_scores_def)

lemma unit_scores_replicate: "unit_scores (replicate n (Some (1/2)))"
  by (simp add: unit_scores_def list_all_iff)

lemma unit_scores_clamped: "unit_scores (map (\<lambda>s. Some (clamp01 s)) xs)"
  by (simp add: unit_scores_def list_all_iff clamp01_bounds)

lemma unit_scores_at:
  assumes "unit_scores xs" and "Option.bind (at_index xs i) (\<lambda>s. s) = Some v"
  shows "0 \<le> v \<and> v \<le> 1"
proof -
  from assms(2) have "i < length xs" and "xs ! i = Some v"
    by (auto simp: at_index_def split: if_splits)
  then have "Some v \<in> set xs"
    by (metis nth_mem)
  with assms(1) show ?thesis
    by (auto simp: unit_scores_def list_all_iff)
qed

lemma or_num_unit:
  "(\<And>v. x = Some v \<Longrightarrow> 0 \<le> v \<and> v \<le> 1) \<Longrightarrow> 0 \<le> or_num x (1/2) \<and> or_num x (1/2) \<le> 1"
  by (cases x) (auto simp: or_num_def)

lemma openai_parseScores_unit: "unit_scores (openai_parseScores c n)"
  by (induction c n rule: openai_parseScores.induct)
     (simp_all add: Let_def unit_scores_replicate unit_scores_clamped)

lemma openai_parseScores_length: "length (openai_parseScores c n) = n"
  by (induction c n rule: openai_parseScores.induct) (simp_all add: Let_def)

lemma gemini_parseScores_unit: "unit_scores (gemini_parseScores t n)"
proof -
  have "unit_scores (map (\<lambda>n. map_option clamp01 (parseFloat n)) ns)" for ns
    by (auto simp: unit_scores_def list_all_iff clamp01_bounds split: option.splits)
  then show ?thesis
    by (auto simp: gemini_parseScores_def Let_def unit_scores_replicate unit_scores_clamped
        split: option.splits)
qed

lemma gemini_parseScores_length: "length (gemini_parseScores t n) = n"
  by (auto simp: gemini_parseScores_def Let_def split: option.splits)

lemma openai_rerank_length: "length (openai_rerank reply q documents) = length documents"
  by (auto simp: openai_rerank_def Let_def length_sort_desc length_attach_scores
      length_default_scores split: response.splits)

lemma cohere_rerank_length: "length (cohere_rerank reply q documents) = length documents"
  by (auto simp: cohere_rerank_def Let_def length_sort_desc length_attach_scores
      length_default_scores split: response.splits)

lemma gemini_rerank_length: "length (gemini_rerank reply q documents) = length documents"
  by (auto simp: gemini_rerank_def Let_def length_sort_desc length_attach_scores
      length_default_scores split: gemini_reply.splits)

lemma provider_rerank_length: "length (provider_rerank p ext q documents) = length documents"
  by (cases p) (simp_all add: openai_rerank_length cohere_rerank_length gemini_rerank_length)

lemma attach_scores_nonzero:
  "d \<in> set (attach_scores f documents) \<Longrightarrow> \<exists>v. rerankerScore d = Some v \<and> v \<noteq> 0"
  by (auto dest!: in_attach_scores simp: or_num_nonzero)

lemma default_scores_nonzero:
  "d \<in> set (default_scores documents) \<Longrightarrow> \<exists>v. rerankerScore d = Some v \<and> v \<noteq> 0"
  by (auto dest!: in_default_scores)

lemma provider_rerank_nonzero:
  assumes "d \<in> set (provider_rerank p ext q documents)"
  shows "\<exists>v. rerankerScore d = Some v \<and> v \<noteq> 0"
proof (cases p)
  case (GeminiReranker k m)
  with assms show ?thesis
    by (auto simp: gemini_rerank_def Let_def set_sort_desc
        split: if_splits gemini_reply.splits
        dest: attach_scores_nonzero default_scores_nonzero)
next
  case (CohereReranker k m)
  with assms show ?thesis
    by (auto simp: cohere_rerank_def Let_def set_sort_desc
        split: if_splits response.splits
        dest: attach_scores_nonzero default_scores_nonzero)
next
  case (OpenAIReranker k m)
  with assms show ?thesis
    by (auto simp: openai_rerank_def Let_def set_sort_desc
        split: if_splits response.splits
        dest: attach_scores_nonzero default_scores_nonzero)
qed

lemma attach_scores_unit:
  assumes "d \<in> set (attach_scores (\<lambda>idx. Option.bind (at_index scores idx) (\<lambda>s. s)) documents)"
    and "unit_scores scores"
  shows "\<exists>v. rerankerScore d = Some v \<and> 0 \<le> v \<and> v \<le> 1"
proof -
  from in_attach_scores [OF assms(1)] obtain i where
    d: "d = (documents ! i)\<lparr>rerankerScore :=
          Some (or_num (Option.bind (at_index scores i) (\<lambda>s. s)) (1/2))\<rparr>"
    by blast
  have "0 \<le> or_num (Option.bind (at_index scores i) (\<lambda>s. s)) (1/2)
      \<and> or_num (Option.bind (at_index scores i) (\<lambda>s. s)) (1/2) \<le> 1"
    by (rule or_num_unit) (rule unit_scores_at [OF assms(2)])
  with d show ?thesis by simp
qed

lemma openai_rerank_unit:
  "d \<in> set (openai_rerank reply q documents) \<Longrightarrow> \<exists>v. rerankerScore d = Some v \<and> 0 \<le> v \<and> v \<le> 1"
  by (auto simp: openai_rerank_def Let_def set_sort_desc
      split: if_splits response.splits
      dest: attach_scores_unit [OF _ openai_parseScores_unit] in_default_scores)

lemma gemini_rerank_unit:
  "d \<in> set (gemini_rerank reply q documents) \<Longrightarrow> \<exists>v. rerankerScore d = Some v \<and> 0 \<le> v \<and> v \<le> 1"
  by (auto simp: gemini_rerank_def Let_def set_sort_desc
      split: if_splits gemini_reply.splits
      dest: attach_scores_unit [OF _ gemini_parseScores_unit] in_default_scores)

lemma cohere_rerank_nonneg:
  assumes "d \<in> set (cohere_rerank reply q documents)"
    and "case reply of Body (Some rs) \<Rightarrow>
           list_all (\<lambda>r. case relevance_score r of None \<Rightarrow> True | Some v \<Rightarrow> 0 \<le> v) rs
         | _ \<Rightarrow> True"
  shows "\<exists>v. rerankerScore d = Some v \<and> 0 \<le> v"
proof (cases reply)
  case (Body results)
  show ?thesis
  proof (cases "documents = []")
    case True
    with assms(1) show ?thesis by (simp add: cohere_rerank_def)
  next
    case False
    let ?f = "\<lambda>idx. case results of None \<Rightarrow> None
                | Some rs \<Rightarrow> (case find (\<lambda>r. index r = int idx) rs of
                               None \<Rightarrow> None | Some result \<Rightarrow> relevance_score result)"
    from assms(1) Body False have "d \<in> set (attach_scores ?f documents)"
      by (simp add: cohere_rerank_def set_sort_desc)
    from in_attach_scores [OF this] obtain i where
      d: "d = (documents ! i)\<lparr>rerankerScore := Some (or_num (?f i) (1/2))\<rparr>"
      by blast
    have "0 \<le> v" if "?f i = Some v" for v
    proof -
      from that obtain rs r where rs: "results = Some rs"
        and r: "find (\<lambda>r. index r = int i) rs = Some r" and v: "relevance_score r = Some v"
        by (auto split: option.splits)
      from r have "r \<in> set rs"
        by (auto simp: find_Some_iff)
      with assms(2) Body rs v show ?thesis
        by (auto simp: list_all_iff)
    qed
    then have "0 \<le> or_num (?f i) (1/2)"
      by (cases "?f i") (auto simp: or_num_def)
    with d show ?thesis by simp
  qed
qed (use assms(1) in \<open>auto simp: cohere_rerank_def split: if_splits dest: in_default_scores\<close>)

lemma provider_rerank_nonneg:
  assumes "d \<in> set (provider_rerank p ext q documents)" and "nonneg_relevance ext"
  shows "\<exists>v. rerankerScore d = Some v \<and> 0 \<le> v"
proof (cases p)
  case (GeminiReranker k m)
  with assms(1) show ?thesis using gemini_rerank_unit by fastforce
next
  case (CohereReranker k m)
  with assms show ?thesis
    using cohere_rerank_nonneg [of d "cohere_says ext" q documents]
    by (simp add: nonneg_relevance_def)
next
  case (OpenAIReranker k m)
  with assms(1) show ?thesis using openai_rerank_unit by fastforce
qed

lemma service_rerank_nonzero:
  "d \<in> set (fst (service_rerank e ext s q documents)) \<Longrightarrow> \<exists>v. rerankerScore d = Some v \<and> v \<noteq> 0"
  by (auto simp: service_rerank_def Let_def split: option.splits
      dest: default_scores_nonzero provider_rerank_nonzero)

lemma service_rerank_nonneg:
  "d \<in> set (fst (service_rerank e ext s q documents)) \<Longrightarrow> nonneg_relevance ext
   \<Longrightarrow> \<exists>v. rerankerScore d = Some v \<and> 0 \<le> v"
  by (auto simp: service_rerank_def Let_def split: option.splits
      dest: in_default_scores provider_rerank_nonneg)

lemma store_scores_fold:
  assumes "\<And>k v. m k = Some v \<Longrightarrow> P v"
    and "\<And>d. d \<in> set docs \<Longrightarrow> P (or_num (rerankerScore d) (1/2))"
    and "foldl (\<lambda>m doc. if docId doc \<noteq> [] then m(docId doc \<mapsto> or_num (rerankerScore doc) (1/2)) else m)
           m docs k = Some v"
  shows "P v"
  using assms
proof (induction docs arbitrary: m)
  case Nil
  then show ?case by simp
next
  case (Cons d docs)
  let ?m' = "if docId d \<noteq> [] then m(docId d \<mapsto> or_num (rerankerScore d) (1/2)) else m"
  have "\<And>k v. ?m' k = Some v \<Longrightarrow> P v"
    using Cons.prems(1) Cons.prems(2) [of d] by (auto split: if_splits)
  moreover have "\<And>x. x \<in> set docs \<Longrightarrow> P (or_num (rerankerScore x) (1/2))"
    using Cons.prems(2) by simp
  moreover have "foldl (\<lambda>m doc. if docId doc \<noteq> [] then m(docId doc \<mapsto> or_num (rerankerScore doc) (1/2)) else m)
           ?m' docs k = Some v"
    using Cons.prems(3) by simp
  ultimately show ?case by (rule Cons.IH)
qed

lemma store_scores_nonneg:
  assumes "\<And>d. d \<in> set docs \<Longrightarrow> \<exists>v. rerankerScore d = Some v \<and> 0 \<le> v"
    and "store_scores docs k = Some v"
  shows "0 \<le> v"
proof (rule store_scores_fold [where P = "\<lambda>v. 0 \<le> v" and m = Map.empty and docs = docs and k = k])
  show "\<And>k v. Map.empty k = Some v \<Longrightarrow> 0 \<le> v" by simp
  show "\<And>d. d \<in> set docs \<Longrightarrow> 0 \<le> or_num (rerankerScore d) (1/2)"
    using assms(1) by (fastforce simp: or_num_def)
  show "foldl (\<lambda>m doc. if docId doc \<noteq> [] then m(docId doc \<mapsto> or_num (rerankerScore doc) (1/2)) else m)
           Map.empty docs k = Some v"
    using assms(2) by (simp add: store_scores_def)
qed

lemma combinedScore_score_document_le:
  "combinedScore (score_document sw rw mw df mm rs entry) \<le> 1"
  by (simp add: score_document_def Let_def)

lemma hosted_score_document:
  "hostedRerankerScore (score_document sw rw mw df mm rs entry) = Some (or_num (rs (fst entry)) (1/2))"
  by (simp add: score_document_def Let_def)

lemma combinedScore_score_document_ge:
  assumes "0 \<le> sw" "0 \<le> rw" "0 \<le> mw" "df \<le> 1"
    and "\<And>v. rs (fst entry) = Some v \<Longrightarrow> 0 \<le> v"
  shows "0 \<le> combinedScore (score_document sw rw mw df mm rs entry)"
proof -
  let ?h = "or_num (rs (fst entry)) (1/2)"
  let ?c = "clamp01 (vectorScore (snd entry)) * sw + ?h * rw
            + clamp01 (metadataScore (snd entry)) * mw"
  have h: "0 \<le> ?h"
    using assms(5) by (cases "rs (fst entry)") (auto simp: or_num_def)
  have c: "0 \<le> ?c"
    using assms(1-3) h clamp01_bounds by (intro add_nonneg_nonneg mult_nonneg_nonneg) auto
  have "0 \<le> ?c * (1 - df)"
    using c assms(4) by (intro mult_nonneg_nonneg) auto
  with c show ?thesis
    by (simp add: score_document_def Let_def)
qed

lemma diversityPenalty_nonneg: "0 \<le> df \<Longrightarrow> 0 \<le> diversityPenalty df st sc r"
  by (simp add: diversityPenalty_def)

lemma length_diversity_loop: "length (diversity_loop df st sc rs) = length rs"
  by (induction rs arbitrary: st sc) simp_all

lemma in_diversity_loop:
  "c \<in> set (diversity_loop df st sc rs) \<Longrightarrow>
   \<exists>r \<in> set rs. \<exists>st' sc'. c = r\<lparr>combinedScore := max 0 (combinedScore r - diversityPenalty df st' sc' r)\<rparr>"
proof (induction rs arbitrary: st sc)
  case Nil
  then show ?case by simp
next
  case (Cons r rs)
  from Cons.prems show ?case
  proof (simp, elim disjE)
    assume "c = r\<lparr>combinedScore := max 0 (combinedScore r - diversityPenalty df st sc r)\<rparr>"
    then show "(\<exists>st' sc'. c = r\<lparr>combinedScore := max 0 (combinedScore r - diversityPenalty df st' sc' r)\<rparr>)
       \<or> (\<exists>r\<in>set rs. \<exists>st' sc'. c = r\<lparr>combinedScore := max 0 (combinedScore r - diversityPenalty df st' sc' r)\<rparr>)"
      by blast
  next
    assume "c \<in> set (diversity_loop df
        (if diversity_title r \<noteq> [] then insert (normalizeTitle (diversity_title r)) st else st)
        (if diversity_court r \<noteq> [] then insert (diversity_court r) sc else sc) rs)"
    from Cons.IH [OF this]
    show "(\<exists>st' sc'. c = r\<lparr>combinedScore := max 0 (combinedScore r - diversityPenalty df st' sc' r)\<rparr>)
       \<or> (\<exists>r\<in>set rs. \<exists>st' sc'. c = r\<lparr>combinedScore := max 0 (combinedScore r - diversityPenalty df st' sc' r)\<rparr>)"
      by blast
  qed
qed

lemma applyDiversity_le:
  assumes "\<And>r. r \<in> set rs \<Longrightarrow> combinedScore r \<le> 1" and "c \<in> set (applyDiversity rs df)"
  shows "combinedScore c \<le> 1"
proof (cases "df \<le> 0 \<or> length rs \<le> 1")
  case True
  with assms show ?thesis by (simp add: applyDiversity_def)
next
  case False
  with assms(2) have "c \<in> set (diversity_loop df {} {} rs)"
    by (simp add: applyDiversity_def set_sort_desc)
  from in_diversity_loop [OF this] obtain r st' sc' where r: "r \<in> set rs"
    and c: "c = r\<lparr>combinedScore := max 0 (combinedScore r - diversityPenalty df st' sc' r)\<rparr>"
    by blast
  from False have "0 \<le> diversityPenalty df st' sc' r"
    by (intro diversityPenalty_nonneg) simp
  with assms(1) [OF r] c show ?thesis by simp
qed

lemma applyDiversity_ge:
  assumes "\<And>r. r \<in> set rs \<Longrightarrow> 0 \<le> combinedScore r" and "c \<in> set (applyDiversity rs df)"
  shows "0 \<le> combinedScore c"
proof (cases "df \<le> 0 \<or> length rs \<le> 1")
  case True
  with assms show ?thesis by (simp add: applyDiversity_def)
next
  case False
  with assms(2) have "c \<in> set (diversity_loop df {} {} rs)"
    by (simp add: applyDiversity_def set_sort_desc)
  from in_diversity_loop [OF this] show ?thesis by auto
qed

lemma hosted_scores_cases:
  "fst (hosted_scores e ext s u q docs) = Map.empty
   \<or> (\<exists>s1. fst (hosted_scores e ext s u q docs) = store_scores (fst (service_rerank e ext s1 q docs)))"
  by (auto simp: hosted_scores_def Let_def split_def)

lemma in_scored_results:
  assumes "c \<in> set (fst (scored_results e ext s vs ms q opts))"
  shows "\<exists>entry rs. c = score_document
            (case semanticWeight opts of None \<Rightarrow> 7/10 | Some w \<Rightarrow> w)
            (case rerankerWeight opts of None \<Rightarrow> 2/10 | Some w \<Rightarrow> w)
            (case metadataWeight opts of None \<Rightarrow> 1/10 | Some w \<Rightarrow> w)
            (case diversityFactor opts of None \<Rightarrow> 1/10 | Some f \<Rightarrow> f)
            (length ms > length vs) rs entry
          \<and> (rs = Map.empty \<or> (\<exists>s1 docs. rs = store_scores (fst (service_rerank e ext s1 q docs))))"
proof -
  let ?u = "case useHostedReranker opts of None \<Rightarrow> True | Some b \<Rightarrow> b"
  let ?m = "merge_results vs ms q"
  let ?rs = "fst (hosted_scores e ext s ?u q (map snd ?m))"
  from assms obtain entry where "c = score_document
            (case semanticWeight opts of None \<Rightarrow> 7/10 | Some w \<Rightarrow> w)
            (case rerankerWeight opts of None \<Rightarrow> 2/10 | Some w \<Rightarrow> w)
            (case metadataWeight opts of None \<Rightarrow> 1/10 | Some w \<Rightarrow> w)
            (case diversityFactor opts of None \<Rightarrow> 1/10 | Some f \<Rightarrow> f)
            (length ms > length vs) ?rs entry"
    by (auto simp: scored_results_def Let_def split_def set_sort_desc)
  moreover have "?rs = Map.empty
      \<or> (\<exists>s1 docs. ?rs = store_scores (fst (service_rerank e ext s1 q docs)))"
    using hosted_scores_cases [of e ext s ?u q "map snd ?m"] by blast
  ultimately show ?thesis by blast
qed

lemma set_rerank:
  "set (fst (rerank e ext s vs ms q opts))
     \<subseteq> set (applyDiversity (fst (scored_results e ext s vs ms q opts))
              (case diversityFactor opts of None \<Rightarrow> 1/10 | Some f \<Rightarrow> f))"
  by (auto simp: rerank_def Let_def split_def dest: in_set_takeD)

lemma scored_results_le:
  "c \<in> set (fst (scored_results e ext s vs ms q opts)) \<Longrightarrow> combinedScore c \<le> 1"
  by (auto dest!: in_scored_results simp: combinedScore_score_document_le)

lemma scored_results_ge:
  assumes "c \<in> set (fst (scored_results e ext s vs ms q opts))"
    and "nonneg_weights opts" and "nonneg_relevance ext"
  shows "0 \<le> combinedScore c"
proof -
  from in_scored_results [OF assms(1)] obtain entry rs where
    c: "c = score_document
            (case semanticWeight opts of None \<Rightarrow> 7/10 | Some w \<Rightarrow> w)
            (case rerankerWeight opts of None \<Rightarrow> 2/10 | Some w \<Rightarrow> w)
            (case metadataWeight opts of None \<Rightarrow> 1/10 | Some w \<Rightarrow> w)
            (case diversityFactor opts of None \<Rightarrow> 1/10 | Some f \<Rightarrow> f)
            (length ms > length vs) rs entry"
    and rs: "rs = Map.empty \<or> (\<exists>s1 docs. rs = store_scores (fst (service_rerank e ext s1 q docs)))"
    by blast
  have "0 \<le> v" if "rs (fst entry) = Some v" for v
    using rs that assms(3)
    by (auto intro: store_scores_nonneg dest: service_rerank_nonneg)
  moreover from assms(2) have
    "0 \<le> (case semanticWeight opts of None \<Rightarrow> 7/10 | Some w \<Rightarrow> w)"
    "0 \<le> (case rerankerWeight opts of None \<Rightarrow> 2/10 | Some w \<Rightarrow> w)"
    "0 \<le> (case metadataWeight opts of None \<Rightarrow> 1/10 | Some w \<Rightarrow> w)"
    "(case diversityFactor opts of None \<Rightarrow> 1/10 | Some f \<Rightarrow> f) \<le> 1"
    by (auto simp: nonneg_weights_def split: option.splits)
  ultimately show ?thesis
    unfolding c by (intro combinedScore_score_document_ge)
qed

section \<open>The scenarios, evaluated\<close>

lemma String_2024: "String 2024 = ''2024''"
  by (simp add: String_def string_of_nat.simps [of 2024] string_of_nat.simps [of 202]
      string_of_nat.simps [of 20] string_of_nat.simps [of 2] digit_chars_def)

lemma scenario_query_terms:
  "tokenize (toLowerCase ''Supreme Court 2024 A v B'') = [''supreme'', ''court'', ''2024'']"
  by code_simp

lemma scenario_metadata_terms:
  "tokenize (toLowerCase ''A v. B  Supreme Court of India   '')
     = [''supreme'', ''court'', ''india'']"
  by code_simp

lemma scenario_court: "toLowerCase ''Supreme Court of India'' = ''supreme court of india''"
  by code_simp

lemma scenario_relevance:
  "calculateMetadataRelevance scenario_row [''supreme'', ''court'', ''2024''] = 1"
  by (simp add: calculateMetadataRelevance_def scenario_row_def empty_row_def value_of_def or_str_def
      keyword_string_def scenario_metadata_terms field_matches_def truthy_str_def
      scenario_court String_2024)

lemma unset_unavailable:
  "hosted_scores unset_env ext new_RerankerService u q docs
     = (Map.empty, if u then \<lparr>provider = None, initialized = True\<rparr> else new_RerankerService)"
  by (simp add: hosted_scores_def isAvailable_def initialize_def unset_env_def
      new_RerankerService_def Let_def)

lemma scenario_scored:
  "map (\<lambda>c. (source c, vectorScore c, hostedRerankerScore c, metadataScore c, combinedScore c))
     (fst (rerank unset_env ext new_RerankerService [] [scenario_row]
        ''Supreme Court 2024 A v B'' manager_weights))
   = [(Metadata, 0, Some (1/2), 1, 9/40)]"
  apply (simp add: rerank_def scored_results_def Let_def split_def unset_unavailable)
  apply (simp add: merge_results_def add_metadata_def scenario_query_terms scenario_relevance
      Let_def)
  apply (simp add: scenario_row_def empty_row_def value_of_def truthy_str_def or_str_def sort_desc_def
      applyDiversity_def score_document_def manager_weights_def no_options_def clamp01_def
      or_num_def)
  done

lemma scenario_scored_defaults:
  "map (\<lambda>c. (metadataScore c, combinedScore c))
     (fst (rerank unset_env ext new_RerankerService [] [scenario_row]
        ''Supreme Court 2024 A v B'' no_options))
   = [(1, 9/50)]"
  apply (simp add: rerank_def scored_results_def Let_def split_def unset_unavailable)
  apply (simp add: merge_results_def add_metadata_def scenario_query_terms scenario_relevance
      Let_def)
  apply (simp add: scenario_row_def empty_row_def value_of_def truthy_str_def or_str_def sort_desc_def
      applyDiversity_def score_document_def no_options_def clamp01_def or_num_def)
  done

lemma negative_weight_scored:
  "map (\<lambda>c. (docId c, combinedScore c))
     (fst (rerank unset_env ext new_RerankerService [hit_d1] [] [] negative_weight))
   = [(''d1'', - (37/100))]"
  apply (simp add: rerank_def scored_results_def Let_def split_def unset_unavailable)
  apply (simp add: merge_results_def add_vector_def vector_docId_def or_prop_def baseScore_def
      hit_d1_def empty_hit_def truthy_str_def truthy_num_def or_str_def or_num_def)
  apply (simp add: sort_desc_def applyDiversity_def score_document_def negative_weight_def
      no_options_def clamp01_def or_num_def Let_def)
  done

lemma singleton_map: "map f xs = [y] \<Longrightarrow> \<exists>x. xs = [x] \<and> f x = y"
  by (cases xs) auto

section \<open>The merge of the two lists\<close>

lemma vector_ids_snoc:
  "vector_ids (vs @ [r]) =
     vector_ids vs @ (if truthy_str (vector_docId r) then [or_str (vector_docId r) []] else [])"
  by (simp add: vector_ids_def)

lemma metadata_ids_snoc:
  "metadata_ids (ms @ [r]) =
     metadata_ids ms @ (if truthy_str (value_of (doc_id r)) then [or_str (value_of (doc_id r)) []] else [])"
  by (simp add: metadata_ids_def)

lemma last_hit_snoc:
  "last_hit k (vs @ [r]) =
     (if truthy_str (vector_docId r) \<and> or_str (vector_docId r) [] = k then Some r
      else last_hit k vs)"
  by (simp add: last_hit_def)

lemma last_hit_None: "k \<notin> set (vector_ids vs) \<Longrightarrow> last_hit k vs = None"
  by (auto simp: last_hit_def vector_ids_def filter_empty_conv)

lemma merge_inv_add_vector:
  assumes "merge_inv vs [] m"
  shows "merge_inv (vs @ [r]) [] (add_vector m r)"
proof (cases "truthy_str (vector_docId r)")
  case False
  with assms show ?thesis
    by (simp add: merge_inv_def add_vector_def vector_ids_snoc last_hit_snoc)
next
  case True
  let ?d = "or_str (vector_docId r) []"
  let ?c = "\<lparr>docId = ?d, vectorScore = baseScore r, metadataScore = 0,
              metadataMatch = False, source = Vector, combinedScore = 0,
              doc_text = vr_text r, doc_title = vr_title r, metadata = vr_metadata r,
              semanticScore = None, hostedRerankerScore = None,
              metadataRelevanceScore = None, rerankerScore = None\<rparr>"
  have m': "add_vector m r = AList.update ?d ?c m"
    using True by (simp add: add_vector_def)
  have "distinct (map fst (AList.update ?d ?c m))"
    using assms by (simp add: merge_inv_def distinct_update)
  moreover have "fst ` set (AList.update ?d ?c m) = set (vector_ids (vs @ [r])) \<union> set []"
    using assms True by (auto simp: merge_inv_def dom_update vector_ids_snoc)
  moreover have "docId c = k
            \<and> (k \<in> set (vector_ids (vs @ [r])) \<longrightarrow>
                 (\<exists>r'. last_hit k (vs @ [r]) = Some r' \<and> vectorScore c = baseScore r')
                 \<and> source c = (if k \<in> set [] then Hybrid else Vector))
            \<and> (k \<notin> set (vector_ids (vs @ [r])) \<longrightarrow>
                 vectorScore c = 0 \<and> (count_list [] k = 1 \<longrightarrow> source c = Metadata))"
    if "map_of (AList.update ?d ?c m) k = Some c" for k c
  proof (cases "k = ?d")
    case True
    with that have "c = ?c" by (simp add: update_conv')
    with True \<open>truthy_str (vector_docId r)\<close> show ?thesis
      by (simp add: vector_ids_snoc last_hit_snoc)
  next
    case False
    with that have old: "map_of m k = Some c" by (simp add: update_conv')
    then have "k \<in> fst ` set m" by (force dest: map_of_SomeD)
    with assms have "k \<in> set (vector_ids vs)" by (simp add: merge_inv_def)
    with assms old False True show ?thesis
      by (auto simp: merge_inv_def vector_ids_snoc last_hit_snoc)
  qed
  ultimately show ?thesis
    unfolding m' merge_inv_def by blast
qed

lemma merge_inv_vectors: "merge_inv vs [] (foldl add_vector [] vs)"
proof (induction vs rule: rev_induct)
  case Nil
  show ?case by (simp add: merge_inv_def vector_ids_def)
next
  case (snoc r vs)
  then show ?case by (simp add: merge_inv_add_vector)
qed

lemma count_list_snoc: "count_list (xs @ [y]) k = count_list xs k + (if y = k then 1 else 0)"
  by (induction xs) auto

lemma count_list_0: "k \<notin> set xs \<Longrightarrow> count_list xs k = 0"
  by (induction xs) auto

lemma count_list_pos: "k \<in> set xs \<Longrightarrow> 0 < count_list xs k"
  by (induction xs) auto

lemma merge_inv_add_metadata:
  assumes "merge_inv vs mids m"
  shows "merge_inv vs (mids @ (if truthy_str (value_of (doc_id r)) then [or_str (value_of (doc_id r)) []] else []))
           (add_metadata qt m r)"
proof (cases "truthy_str (value_of (doc_id r))")
  case False
  with assms show ?thesis
    by (simp add: add_metadata_def)
next
  case True
  let ?d = "or_str (value_of (doc_id r)) []"
  have keys: "fst ` set m = set (vector_ids vs) \<union> set mids"
    and dist: "distinct (map fst m)"
    and inv: "\<And>k c. map_of m k = Some c \<Longrightarrow>
            docId c = k
            \<and> (k \<in> set (vector_ids vs) \<longrightarrow>
                 (\<exists>r. last_hit k vs = Some r \<and> vectorScore c = baseScore r)
                 \<and> source c = (if k \<in> set mids then Hybrid else Vector))
            \<and> (k \<notin> set (vector_ids vs) \<longrightarrow>
                 vectorScore c = 0 \<and> (count_list mids k = 1 \<longrightarrow> source c = Metadata))"
    using assms by (auto simp: merge_inv_def)
  obtain c' where m': "add_metadata qt m r = AList.update ?d c' m"
    and c': "case map_of m ?d of
               Some existing \<Rightarrow> docId c' = docId existing \<and> vectorScore c' = vectorScore existing
                                 \<and> source c' = Hybrid
             | None \<Rightarrow> docId c' = ?d \<and> vectorScore c' = 0 \<and> source c' = Metadata"
    using True by (cases "map_of m ?d") (simp_all add: add_metadata_def Let_def)
  have in_keys: "map_of m ?d \<noteq> None \<longleftrightarrow> ?d \<in> set (vector_ids vs) \<union> set mids"
    using keys by (simp add: map_of_eq_None_iff)
  have "distinct (map fst (AList.update ?d c' m))"
    using dist by (simp add: distinct_update)
  moreover have "fst ` set (AList.update ?d c' m) = set (vector_ids vs) \<union> set (mids @ [?d])"
    using keys by (auto simp: dom_update)
  moreover have "docId c = k
            \<and> (k \<in> set (vector_ids vs) \<longrightarrow>
                 (\<exists>r. last_hit k vs = Some r \<and> vectorScore c = baseScore r)
                 \<and> source c = (if k \<in> set (mids @ [?d]) then Hybrid else Vector))
            \<and> (k \<notin> set (vector_ids vs) \<longrightarrow>
                 vectorScore c = 0 \<and> (count_list (mids @ [?d]) k = 1 \<longrightarrow> source c = Metadata))"
    if "map_of (AList.update ?d c' m) k = Some c" for k c
  proof (cases "k = ?d")
    case False
    with that have "map_of m k = Some c" by (simp add: update_conv')
    from inv [OF this] False show ?thesis
      by (simp add: count_list_snoc)
  next
    case k: True
    with that have c: "c = c'" by (simp add: update_conv')
    show ?thesis
    proof (cases "map_of m ?d")
      case None
      with in_keys have "?d \<notin> set (vector_ids vs)" "?d \<notin> set mids" by auto
      with None c' c k show ?thesis by simp
    next
      case (Some existing)
      with in_keys have mem: "?d \<in> set (vector_ids vs) \<or> ?d \<in> set mids" by auto
      have "count_list (mids @ [?d]) ?d \<noteq> 1" if "?d \<notin> set (vector_ids vs)"
        using mem that count_list_pos [of ?d mids] by (simp add: count_list_snoc)
      with inv [OF Some] Some c' c k show ?thesis by auto
    qed
  qed
  ultimately show ?thesis
    using True unfolding m' merge_inv_def by simp
qed

lemma merge_inv_metadata:
  assumes "merge_inv vs [] m"
  shows "merge_inv vs (metadata_ids ms) (foldl (add_metadata qt) m ms)"
proof (induction ms rule: rev_induct)
  case Nil
  from assms show ?case by (simp add: metadata_ids_def)
next
  case (snoc r ms)
  from merge_inv_add_metadata [OF snoc.IH, of r] show ?case
    by (simp add: metadata_ids_snoc)
qed

lemma merge_inv_merge_results:
  "merge_inv vs (metadata_ids ms) (merge_results vs ms q)"
  unfolding merge_results_def by (rule merge_inv_metadata) (rule merge_inv_vectors)

lemma merge_results_docId: "map docId (map snd (merge_results vs ms q)) = map fst (merge_results vs ms q)"
proof -
  have "distinct (map fst (merge_results vs ms q))"
    and "\<And>k c. map_of (merge_results vs ms q) k = Some c \<Longrightarrow> docId c = k"
    using merge_inv_merge_results [of vs ms q] by (auto simp: merge_inv_def)
  then have "docId (snd e) = fst e" if "e \<in> set (merge_results vs ms q)" for e
    using that by (cases e) (auto dest: map_of_is_SomeI)
  then show ?thesis by simp
qed

lemma hybrid_merge:
  "map (\<lambda>c. (docId c, source c, vectorScore c)) (map snd (merge_results [hit_d1] [row_d1] []))
     = [(''d1'', Hybrid, 9/10)]"
  by (simp add: merge_results_def add_vector_def add_metadata_def vector_docId_def or_prop_def
      baseScore_def hit_d1_def row_d1_def empty_hit_def empty_row_def value_of_def truthy_str_def
      truthy_num_def or_str_def or_num_def Let_def)


section \<open>The diversity pass\<close>

lemma seen_titles_Cons:
  "seen_titles (r # rs) =
     (if diversity_title r \<noteq> [] then insert (normalizeTitle (diversity_title r)) (seen_titles rs)
      else seen_titles rs)"
  by (simp add: seen_titles_def)

lemma seen_courts_Cons:
  "seen_courts (r # rs) =
     (if diversity_court r \<noteq> [] then insert (diversity_court r) (seen_courts rs)
      else seen_courts rs)"
  by (simp add: seen_courts_def)

lemma diversity_loop_nth:
  "i < length rs \<Longrightarrow>
   diversity_loop df st sc rs ! i =
     (rs ! i)\<lparr>combinedScore := max 0 (combinedScore (rs ! i)
        - diversityPenalty df (st \<union> seen_titles (take i rs)) (sc \<union> seen_courts (take i rs)) (rs ! i))\<rparr>"
proof (induction rs arbitrary: st sc i)
  case Nil
  then show ?case by simp
next
  case (Cons r rs)
  show ?case
  proof (cases i)
    case 0
    then show ?thesis by (simp add: seen_titles_def seen_courts_def)
  next
    case (Suc j)
    with Cons.prems have j: "j < length rs" by simp
    have t: "(if diversity_title r \<noteq> [] then insert (normalizeTitle (diversity_title r)) st else st)
               \<union> seen_titles (take j rs) = st \<union> seen_titles (r # take j rs)"
      by (auto simp: seen_titles_Cons)
    have c: "(if diversity_court r \<noteq> [] then insert (diversity_court r) sc else sc)
               \<union> seen_courts (take j rs) = sc \<union> seen_courts (r # take j rs)"
      by (auto simp: seen_courts_Cons)
    show ?thesis
      using Cons.IH [OF j] Suc by (simp only: diversity_loop.simps nth_Cons_Suc take_Suc_Cons t c)
  qed
qed

lemma diversity_loop_penalized:
  "diversity_loop df {} {} rs = map (penalized df rs) [0 ..< length rs]"
  by (rule nth_equalityI)
     (simp_all add: length_diversity_loop diversity_loop_nth penalized_def penalty_at_def
        diversityPenalty_def)

lemma penalty_at_nonneg: "0 \<le> df \<Longrightarrow> 0 \<le> penalty_at df rs i"
  by (simp add: penalty_at_def)

lemma sorted_desc_sort_desc:
  "sorted_wrt (\<lambda>a b. key b \<le> key a) (sort_desc key xs)"
proof -
  have "sorted (map (\<lambda>x. - key x) (sort_desc key xs))"
    by (simp add: sort_desc_def)
  then show ?thesis
    by (simp add: sorted_map)
qed

lemma sorted_desc_applyDiversity:
  "sorted_wrt (\<lambda>a b. combinedScore b \<le> combinedScore a) rs \<Longrightarrow>
   sorted_wrt (\<lambda>a b. combinedScore b \<le> combinedScore a) (applyDiversity rs df)"
  by (simp add: applyDiversity_def sorted_desc_sort_desc)

lemma sorted_desc_scored_results:
  "sorted_wrt (\<lambda>a b. combinedScore b \<le> combinedScore a)
     (fst (scored_results e ext s vs ms q opts))"
  by (simp add: scored_results_def Let_def split_def sorted_desc_sort_desc)

lemma rerank_eq:
  "fst (rerank e ext s vs ms q opts) =
     take (maxResults_of opts)
       (applyDiversity (fst (scored_results e ext s vs ms q opts)) (diversityFactor_of opts))"
  by (simp add: rerank_def Let_def split_def maxResults_of_def diversityFactor_of_def)

lemma sorted_wrt_take: "sorted_wrt P xs \<Longrightarrow> sorted_wrt P (take n xs)"
  by (metis append_take_drop_id sorted_wrt_append)

lemma normalize_same_title:
  "normalizeTitle ''Same Title'' = ''same title''"
  "normalizeTitle ''same  title!'' = ''same title''"
  "normalizeTitle ''Untitled'' = ''untitled''"
  by code_simp+

lemma empty_query_relevance:
  "calculateMetadataRelevance r [] = 1/2"
  by (simp add: calculateMetadataRelevance_def field_matches_def Let_def split: option.splits)

lemma empty_query_terms: "tokenize (toLowerCase []) = []"
  by (simp add: tokenize_def toLowerCase_def split_ws_def)

lemma same_title_scored:
  "map (\<lambda>c. (docId c, doc_title c, metadata c, combinedScore c))
     (fst (scored_results unset_env ext new_RerankerService [hit_a, hit_b] [] [] manager_weights))
   = [(''a'', Some ''Same Title'', None, 69/100), (''b'', Some ''same  title!'', None, 63/100)]"
  apply (simp add: scored_results_def Let_def split_def unset_unavailable)
  apply (simp add: merge_results_def add_vector_def vector_docId_def or_prop_def baseScore_def
      hit_a_def hit_b_def empty_hit_def truthy_str_def truthy_num_def or_str_def or_num_def)
  apply (simp add: sort_desc_def score_document_def manager_weights_def
      no_options_def clamp01_def or_num_def Let_def)
  done

lemma same_title_reranked:
  "map (\<lambda>c. (docId c, combinedScore c))
     (fst (rerank unset_env ext new_RerankerService [hit_a, hit_b] [] [] manager_weights))
   = [(''a'', 69/100), (''b'', 53/100)]"
proof -
  obtain a b where pre: "fst (scored_results unset_env ext new_RerankerService [hit_a, hit_b] [] []
        manager_weights) = [a, b]"
    and a: "docId a = ''a''" "doc_title a = Some ''Same Title''" "metadata a = None"
      "combinedScore a = 69/100"
    and b: "docId b = ''b''" "doc_title b = Some ''same  title!''" "metadata b = None"
      "combinedScore b = 63/100"
    using same_title_scored [of ext] by (auto simp: map_eq_Cons_conv)
  have o: "diversityFactor_of manager_weights = 1/10" "maxResults_of manager_weights = 10"
    by (simp_all add: diversityFactor_of_def maxResults_of_def manager_weights_def no_options_def)
  show ?thesis
    by (simp add: rerank_eq pre o applyDiversity_def diversityPenalty_def diversity_title_def
        diversity_court_def truthy_str_def or_str_def a b normalize_same_title sort_desc_def)
qed

lemma steep_scored:
  "map (\<lambda>c. (docId c, doc_title c, metadata c, combinedScore c))
     (fst (scored_results unset_env ext new_RerankerService [] [row_d1, row_d2] [] steep_diversity))
   = [(''d1'', Some ''Untitled'', Some row_d1, - (3/20)),
      (''d2'', Some ''Untitled'', Some row_d2, - (3/20))]"
  apply (simp add: scored_results_def Let_def split_def unset_unavailable)
  apply (simp add: merge_results_def add_metadata_def empty_query_terms empty_query_relevance
      Let_def)
  apply (simp add: row_d1_def row_d2_def empty_row_def value_of_def truthy_str_def or_str_def)
  apply (simp add: sort_desc_def score_document_def steep_diversity_def
      no_options_def clamp01_def or_num_def Let_def)
  done

lemma steep_reranked:
  "map (\<lambda>c. (docId c, combinedScore c))
     (fst (rerank unset_env ext new_RerankerService [] [row_d1, row_d2] [] steep_diversity))
   = [(''d1'', 0), (''d2'', 0)]"
proof -
  obtain a b where pre: "fst (scored_results unset_env ext new_RerankerService [] [row_d1, row_d2] []
        steep_diversity) = [a, b]"
    and a: "docId a = ''d1''" "doc_title a = Some ''Untitled''" "metadata a = Some row_d1"
      "combinedScore a = - (3/20)"
    and b: "docId b = ''d2''" "doc_title b = Some ''Untitled''" "metadata b = Some row_d2"
      "combinedScore b = - (3/20)"
    using steep_scored [of ext] by (auto simp: map_eq_Cons_conv)
  have o: "diversityFactor_of steep_diversity = 2" "maxResults_of steep_diversity = 10"
    by (simp_all add: diversityFactor_of_def maxResults_of_def steep_diversity_def no_options_def)
  have c: "court row_d1 = Value ''X''" "court row_d2 = Value ''Y''"
    by (simp_all add: row_d1_def row_d2_def empty_row_def value_of_def)
  show ?thesis
    by (simp add: rerank_eq pre o c applyDiversity_def diversityPenalty_def diversity_title_def
        diversity_court_def truthy_str_def or_str_def a b normalize_same_title sort_desc_def
        value_of_def)
qed

section \<open>The filter extraction\<close>





















section \<open>Batches\<close>

lemma chunks_Nil: "chunks n [] = []"
  by (simp add: chunks.simps)

lemma chunks_Cons: "0 < n \<Longrightarrow> xs \<noteq> [] \<Longrightarrow> chunks n xs = take n xs # chunks n (drop n xs)"
  by (subst chunks.simps) simp

lemma concat_chunks: "0 < n \<Longrightarrow> concat (chunks n xs) = xs"
proof (induction n xs rule: chunks.induct)
  case (1 n xs)
  show ?case
  proof (cases "xs = []")
    case True
    then show ?thesis by (simp add: chunks_Nil)
  next
    case False
    with 1 show ?thesis by (simp add: chunks_Cons)
  qed
qed

lemma chunks_sizes: "0 < n \<Longrightarrow> c \<in> set (chunks n xs) \<Longrightarrow> 0 < length c \<and> length c \<le> n"
proof (induction n xs rule: chunks.induct)
  case (1 n xs)
  show ?case
  proof (cases "xs = []")
    case True
    with "1.prems" show ?thesis by (simp add: chunks_Nil)
  next
    case False
    with 1 show ?thesis by (auto simp: chunks_Cons)
  qed
qed

lemma rerankBatch_loop_chunks:
  assumes "0 < n"
  shows "rerankBatch_loop rr n docs i k results pauses =
           Some (results @ concat (map (\<lambda>(j, c). rr j c) (enumerate k (chunks n (drop i docs)))),
                 pauses + (length (chunks n (drop i docs)) - 1))"
proof (induction "length docs - i" arbitrary: i k results pauses rule: less_induct)
  case less
  show ?case
  proof (cases "i < length docs")
    case False
    then show ?thesis
      by (subst rerankBatch_loop.simps) (simp add: chunks_Nil)
  next
    case True
    then have ne: "drop i docs \<noteq> []" by simp
    have smaller: "length docs - (i + n) < length docs - i"
      using True assms by simp
    have ch: "chunks n (drop i docs) = take n (drop i docs) # chunks n (drop (i + n) docs)"
      using chunks_Cons [OF assms ne] by (simp add: add.commute)
    have p: "Suc (length (chunks n (drop (i + n) docs)) - Suc 0)
               = length (chunks n (drop (i + n) docs))" if "i + n < length docs"
    proof -
      from that have "drop (i + n) docs \<noteq> []" by simp
      from chunks_Cons [OF assms this] show ?thesis by simp
    qed
    show ?thesis
      by (subst rerankBatch_loop.simps) (simp add: True less [OF smaller] ch p chunks_Nil)
  qed
qed

lemma docId_attach_scores: "map docId (attach_scores f docs) = map docId docs"
  by (rule nth_equalityI) (simp_all add: length_attach_scores attach_scores_nth)

lemma docId_default_scores: "map docId (default_scores docs) = map docId docs"
  by (simp add: default_scores_def comp_def)

lemma mset_sort_desc: "mset (sort_desc key xs) = mset xs"
  by (simp add: sort_desc_def)

lemma mset_docId_attach_scores:
  "image_mset docId (mset (attach_scores f docs)) = image_mset docId (mset docs)"
  using arg_cong [OF docId_attach_scores [of f docs], of mset] by simp

lemma mset_docId_default_scores:
  "image_mset docId (mset (default_scores docs)) = image_mset docId (mset docs)"
  using arg_cong [OF docId_default_scores [of docs], of mset] by simp

lemma provider_rerank_mset:
  "mset (map docId (provider_rerank p ext q docs)) = mset (map docId docs)"
  by (cases p)
     (auto simp: gemini_rerank_def cohere_rerank_def openai_rerank_def Let_def
        mset_sort_desc mset_docId_attach_scores mset_docId_default_scores
        split: gemini_reply.splits response.splits)

lemma sorted_provider_rerank:
  "sorted_wrt (\<lambda>a b. rerankerScore_of b \<le> rerankerScore_of a) (provider_rerank p ext q docs)"
proof -
  have d: "sorted_wrt (\<lambda>a b. rerankerScore_of b \<le> rerankerScore_of a) (default_scores ds)" for ds
    by (simp add: default_scores_def sorted_wrt_map rerankerScore_of_def)
  show ?thesis
    by (cases p)
       (auto simp: gemini_rerank_def cohere_rerank_def openai_rerank_def Let_def
          sorted_desc_sort_desc d split: gemini_reply.splits response.splits)
qed

section \<open>The service without a provider, and evaluated answers\<close>

lemma chunks_eleven:
  "chunks 10 (replicate 11 x) = [replicate 10 x, [x]]"
  by (simp add: chunks.simps)

lemma openai_silent:
  "provider_rerank (OpenAIReranker k m) silent q docs = default_scores docs"
  by (simp add: openai_rerank_def silent_def default_scores_def)

lemma default_scores_replicate:
  "default_scores (replicate n d) = replicate n (d\<lparr>rerankerScore := Some (1/2)\<rparr>)"
  by (simp add: default_scores_def)

lemma openai_prefers_second_eval:
  "provider_rerank (OpenAIReranker k m) (openai_prefers_second j) q [doc_a, doc_b]
     = [doc_b\<lparr>rerankerScore := Some (9/10)\<rparr>, doc_a\<lparr>rerankerScore := Some (1/10)\<rparr>]"
  by (simp add: openai_rerank_def openai_prefers_second_def silent_def attach_scores_def
      at_index_def or_num_def clamp01_def sort_desc_def rerankerScore_of_def List.map_filter_simps)

lemma openai_zero_first_eval:
  "provider_rerank (OpenAIReranker k m) openai_zero_first q [doc_a, doc_b]
     = [doc_b\<lparr>rerankerScore := Some (9/10)\<rparr>, doc_a\<lparr>rerankerScore := Some (1/2)\<rparr>]"
  by (simp add: openai_rerank_def openai_zero_first_def silent_def attach_scores_def
      at_index_def or_num_def clamp01_def sort_desc_def rerankerScore_of_def List.map_filter_simps)

lemma cohere_overshoots_eval:
  "provider_rerank (CohereReranker k m) cohere_overshoots q [doc_a]
     = [doc_a\<lparr>rerankerScore := Some (3/2)\<rparr>]"
  by (simp add: cohere_rerank_def cohere_overshoots_def silent_def attach_scores_def
      or_num_def sort_desc_def)

lemma chunks_two: "chunks 10 [x, y] = [[x, y]]"
  by (simp add: chunks.simps)

lemma applyDiversity_hosted:
  assumes "c \<in> set (applyDiversity rs df)"
  shows "\<exists>r \<in> set rs. hostedRerankerScore c = hostedRerankerScore r"
proof (cases "df \<le> 0 \<or> length rs \<le> 1")
  case True
  with assms show ?thesis by (auto simp: applyDiversity_def)
next
  case False
  with assms have "c \<in> set (diversity_loop df {} {} rs)"
    by (simp add: applyDiversity_def set_sort_desc)
  from in_diversity_loop [OF this] show ?thesis by auto
qed

lemma rerank_hosted:
  assumes "c \<in> set (fst (rerank e ext s vs ms q opts))"
  shows "\<exists>x. hostedRerankerScore c = Some (or_num x (1/2))"
proof -
  from assms set_rerank have "c \<in> set (applyDiversity (fst (scored_results e ext s vs ms q opts))
              (case diversityFactor opts of None \<Rightarrow> 1/10 | Some f \<Rightarrow> f))"
    by blast
  from applyDiversity_hosted [OF this] obtain r
    where r: "r \<in> set (fst (scored_results e ext s vs ms q opts))"
      and h: "hostedRerankerScore c = hostedRerankerScore r"
    by blast
  from in_scored_results [OF r] obtain entry rs where "hostedRerankerScore r
      = Some (or_num (rs (fst entry)) (1/2))"
    by (auto simp: hosted_score_document)
  with h show ?thesis by auto
qed

lemma initialized_initialize: "initialized (initialize e s)"
  by (simp add: initialize_def Let_def)

lemma initialize_idem: "initialized s \<Longrightarrow> initialize e s = s"
  by (simp add: initialize_def)

lemma initialize_unconfigured:
  assumes "provider s = None"
    and "reranker_disabled e \<or> missing_key e \<or> unknown_provider e"
  shows "provider (initialize e s) = None"
  using assms
  by (auto simp: initialize_def Let_def reranker_disabled_def missing_key_def
      unknown_provider_def provider_name_def truthy_str_def or_prop_def split: option.splits)

lemma hosted_scores_unconfigured:
  assumes "provider (initialize e new_RerankerService) = None"
  shows "fst (hosted_scores e ext new_RerankerService u q docs) = Map.empty"
  using assms
  by (simp add: hosted_scores_def isAvailable_def Let_def new_RerankerService_def)

lemma rerank_unconfigured:
  assumes "provider (initialize e new_RerankerService) = None"
    and "c \<in> set (fst (rerank e ext new_RerankerService vs ms q opts))"
  shows "hostedRerankerScore c = Some (1/2)"
proof -
  from assms(2) set_rerank
  have "c \<in> set (applyDiversity (fst (scored_results e ext new_RerankerService vs ms q opts))
              (case diversityFactor opts of None \<Rightarrow> 1/10 | Some f \<Rightarrow> f))"
    by blast
  from applyDiversity_hosted [OF this] obtain r
    where r: "r \<in> set (fst (scored_results e ext new_RerankerService vs ms q opts))"
      and h: "hostedRerankerScore c = hostedRerankerScore r"
    by blast
  from r have "hostedRerankerScore r = Some (1/2)"
    by (auto simp: scored_results_def Let_def split_def set_sort_desc hosted_score_document
        hosted_scores_unconfigured [OF assms(1)] or_num_def)
  with h show ?thesis by simp
qed

lemma misspelt_unknown: "unknown_provider misspelt_env"
  by code_simp

section \<open>The search and its failing sources\<close>


















section \<open>Claims about the fusion\<close>

text \<open>
  C1, as amended. In the metadata-only scenario (no vector hit, the one row \<open>d1\<close> of the
  Supreme Court of India, year 2024, titled "A v. B", the query "Supreme Court 2024 A v B",
  no reranker configured) and with the weights 0.6, 0.3 and 0.1 of the search manager, the
  hybrid reranker returns exactly one candidate, of source \<open>metadata\<close>, with vector score 0,
  reranker score 0.5 and metadata score 1, which is at least 0.5 + 0.15 + 0.15 capped at 1;
  its combined score is (0.6 * 0 + 0.3 * 0.5 + 0.1 * metadataScore) * (1 - 0.1), since the
  one metadata row outnumbers the vector hits and the imbalance penalty applies.
\<close>

theorem C1_metadata_only_scenario:
  "\<exists>c. fst (rerank unset_env ext new_RerankerService [] [scenario_row]
            ''Supreme Court 2024 A v B'' manager_weights) = [c]
     \<and> source c = Metadata \<and> vectorScore c = 0 \<and> hostedRerankerScore c = Some (1/2)
     \<and> metadataScore c = 1 \<and> min (1/2 + 15/100 + 15/100) 1 \<le> metadataScore c
     \<and> combinedScore c = (6/10 * 0 + 3/10 * (1/2) + 1/10 * metadataScore c) * (1 - 1/10)"
  using singleton_map [OF scenario_scored [of ext]] by auto

text \<open>
  C1 as stated fails: the combined score of the scenario is not
  0.6 * 0 + 0.3 * 0.5 + 0.1 * metadataScore, neither with the weights of the search manager
  nor with the defaults of the function itself (0.7, 0.2, 0.1).
\<close>

theorem C1_metadata_only_counterexample:
  "combinedScore (hd (fst (rerank unset_env silent new_RerankerService [] [scenario_row]
       ''Supreme Court 2024 A v B'' manager_weights)))
     \<noteq> 6/10 * 0 + 3/10 * (1/2) + 1/10 * metadataScore (hd (fst (rerank unset_env silent
       new_RerankerService [] [scenario_row] ''Supreme Court 2024 A v B'' manager_weights)))
   \<and> combinedScore (hd (fst (rerank unset_env silent new_RerankerService [] [scenario_row]
       ''Supreme Court 2024 A v B'' no_options)))
     \<noteq> 6/10 * 0 + 3/10 * (1/2) + 1/10 * metadataScore (hd (fst (rerank unset_env silent
       new_RerankerService [] [scenario_row] ''Supreme Court 2024 A v B'' no_options)))"
  using singleton_map [OF scenario_scored [of silent]]
    singleton_map [OF scenario_scored_defaults [of silent]]
  by auto

text \<open>
  C2, as amended. Every candidate the hybrid reranker returns has a combined score of at
  most 1. The score is at least 0 when no weight is negative, the diversity factor is at
  most 1 and the Cohere service returns no negative relevance score.
\<close>

theorem C2_combined_score_bounds:
  "(\<forall>c \<in> set (fst (rerank e ext s vs ms q opts)). combinedScore c \<le> 1)
   \<and> (nonneg_weights opts \<and> nonneg_relevance ext
        \<longrightarrow> (\<forall>c \<in> set (fst (rerank e ext s vs ms q opts)). 0 \<le> combinedScore c))"
proof (intro conjI ballI impI)
  fix c assume "c \<in> set (fst (rerank e ext s vs ms q opts))"
  then have "c \<in> set (applyDiversity (fst (scored_results e ext s vs ms q opts))
              (case diversityFactor opts of None \<Rightarrow> 1/10 | Some f \<Rightarrow> f))"
    using set_rerank by blast
  then show "combinedScore c \<le> 1"
    by (rule applyDiversity_le [rotated]) (rule scored_results_le)
next
  fix c assume h: "nonneg_weights opts \<and> nonneg_relevance ext"
    and "c \<in> set (fst (rerank e ext s vs ms q opts))"
  then have "c \<in> set (applyDiversity (fst (scored_results e ext s vs ms q opts))
              (case diversityFactor opts of None \<Rightarrow> 1/10 | Some f \<Rightarrow> f))"
    using set_rerank by blast
  then show "0 \<le> combinedScore c"
    by (rule applyDiversity_ge [rotated]) (use h in \<open>auto intro: scored_results_ge\<close>)
qed

theorem C2_combined_score_bounds_witness:
  "nonneg_weights manager_weights \<and> nonneg_relevance silent
   \<and> 0 \<le> combinedScore (hd (fst (rerank unset_env silent new_RerankerService []
         [scenario_row] ''Supreme Court 2024 A v B'' manager_weights)))
   \<and> combinedScore (hd (fst (rerank unset_env silent new_RerankerService []
         [scenario_row] ''Supreme Court 2024 A v B'' manager_weights))) \<le> 1
   \<and> length (fst (rerank unset_env silent new_RerankerService []
         [scenario_row] ''Supreme Court 2024 A v B'' manager_weights)) = 1"
proof -
  have w: "nonneg_weights manager_weights"
    by (simp add: nonneg_weights_def manager_weights_def no_options_def)
  have r: "nonneg_relevance silent"
    by (simp add: nonneg_relevance_def silent_def)
  obtain c where c: "fst (rerank unset_env silent new_RerankerService []
         [scenario_row] ''Supreme Court 2024 A v B'' manager_weights) = [c]"
    using singleton_map [OF scenario_scored [of silent]] by blast
  from C2_combined_score_bounds [of unset_env silent new_RerankerService "[]"
      "[scenario_row]" "''Supreme Court 2024 A v B''" manager_weights] w r c
  show ?thesis by simp
qed

text \<open>
  C2 as stated fails: with a reranker weight of -2 and one vector hit of score 0.9 the
  returned candidate has the combined score -0.37.
\<close>

theorem C2_combined_score_counterexample:
  "map docId (fst (rerank unset_env silent new_RerankerService [hit_d1] [] []
       negative_weight)) = [''d1'']
   \<and> combinedScore (hd (fst (rerank unset_env silent new_RerankerService [hit_d1] [] []
       negative_weight))) < 0"
  using singleton_map [OF negative_weight_scored [of silent]] by auto

text \<open>
  What the merge step does on all inputs. The document map holds exactly one candidate per
  id, and its ids are those of the vector hits and of the metadata rows. A candidate whose
  id is in both lists has the source \<open>hybrid\<close> and the score of the last vector hit of that
  id; one whose id is in the vector list only has the source \<open>vector\<close>; one whose id is in
  the metadata list only, once, has the source \<open>metadata\<close>.
\<close>

theorem merge_one_per_id:
  "distinct (map docId (map snd (merge_results vs ms q)))
   \<and> set (map docId (map snd (merge_results vs ms q))) = set (vector_ids vs) \<union> set (metadata_ids ms)
   \<and> (\<forall>c \<in> set (map snd (merge_results vs ms q)).
        (docId c \<in> set (vector_ids vs) \<and> docId c \<in> set (metadata_ids ms)
           \<longrightarrow> source c = Hybrid
               \<and> (\<exists>r. last_hit (docId c) vs = Some r \<and> vectorScore c = baseScore r))
      \<and> (docId c \<in> set (vector_ids vs) \<and> docId c \<notin> set (metadata_ids ms)
           \<longrightarrow> source c = Vector)
      \<and> (docId c \<notin> set (vector_ids vs) \<and> count_list (metadata_ids ms) (docId c) = 1
           \<longrightarrow> source c = Metadata))"
proof -
  let ?m = "merge_results vs ms q"
  have dist: "distinct (map fst ?m)"
    and keys: "fst ` set ?m = set (vector_ids vs) \<union> set (metadata_ids ms)"
    and inv: "\<And>k c. map_of ?m k = Some c \<Longrightarrow>
            docId c = k
            \<and> (k \<in> set (vector_ids vs) \<longrightarrow>
                 (\<exists>r. last_hit k vs = Some r \<and> vectorScore c = baseScore r)
                 \<and> source c = (if k \<in> set (metadata_ids ms) then Hybrid else Vector))
            \<and> (k \<notin> set (vector_ids vs) \<longrightarrow>
                 vectorScore c = 0
                 \<and> (count_list (metadata_ids ms) k = 1 \<longrightarrow> source c = Metadata))"
    using merge_inv_merge_results [of vs ms q] by (auto simp: merge_inv_def)
  have "distinct (map docId (map snd ?m))"
    using dist by (simp only: merge_results_docId)
  moreover have "set (map docId (map snd ?m)) = set (vector_ids vs) \<union> set (metadata_ids ms)"
    using keys by (simp only: merge_results_docId set_map)
  moreover have "(docId c \<in> set (vector_ids vs) \<and> docId c \<in> set (metadata_ids ms)
           \<longrightarrow> source c = Hybrid
               \<and> (\<exists>r. last_hit (docId c) vs = Some r \<and> vectorScore c = baseScore r))
      \<and> (docId c \<in> set (vector_ids vs) \<and> docId c \<notin> set (metadata_ids ms)
           \<longrightarrow> source c = Vector)
      \<and> (docId c \<notin> set (vector_ids vs) \<and> count_list (metadata_ids ms) (docId c) = 1
           \<longrightarrow> source c = Metadata)"
    if "c \<in> set (map snd ?m)" for c
  proof -
    from that obtain k where "(k, c) \<in> set ?m" by auto
    with dist have "map_of ?m k = Some c" by (rule map_of_is_SomeI)
    from inv [OF this] show ?thesis by auto
  qed
  ultimately show ?thesis by blast
qed

text \<open>The hybrid scenario: the vector hit \<open>d1\<close> of score 0.9 and the metadata row \<open>d1\<close> of
  court X merge into one candidate of source \<open>hybrid\<close> and vector score 0.9.\<close>

theorem merge_one_per_id_hybrid_scenario:
  "''d1'' \<in> set (vector_ids [hit_d1]) \<and> ''d1'' \<in> set (metadata_ids [row_d1])
   \<and> map docId (map snd (merge_results [hit_d1] [row_d1] [])) = [''d1'']
   \<and> source (hd (map snd (merge_results [hit_d1] [row_d1] []))) = Hybrid
   \<and> vectorScore (hd (map snd (merge_results [hit_d1] [row_d1] []))) = 9/10"
proof -
  obtain c where c: "map snd (merge_results [hit_d1] [row_d1] []) = [c]"
    and d: "docId c = ''d1''" and v: "vectorScore c = 9/10"
    using singleton_map [OF hybrid_merge] by auto
  have ids: "''d1'' \<in> set (vector_ids [hit_d1])" "''d1'' \<in> set (metadata_ids [row_d1])"
    by (simp_all add: vector_ids_def metadata_ids_def vector_docId_def or_prop_def hit_d1_def
        row_d1_def empty_hit_def empty_row_def value_of_def truthy_str_def or_str_def)
  from merge_one_per_id [of "[hit_d1]" "[row_d1]" "[]"] c d ids
  have "source c = Hybrid" by simp
  with c d v ids show ?thesis by simp
qed


text \<open>
  C4, as amended. The hybrid reranker returns the first \<open>maxResults\<close> (10 by default)
  candidates of the diversity pass over the scored and sorted candidates, in non-increasing
  order of combined score. The pass leaves the list as it is when the diversity factor is
  not positive or the list has at most one candidate; otherwise it gives each candidate the
  score \<open>max 0 (score - penalty)\<close>, where the penalty is the diversity factor if the
  normalized title was seen before, plus half the factor if the court was, and sorts again.
  A candidate whose score before the pass is not negative never gains: its score after the
  pass is between 0 and its score before. No score before the pass is negative when no
  weight is negative, the diversity factor is at most 1 and the Cohere service returns no
  negative relevance score.
\<close>

theorem C4_diversity_pass:
  "(let pre = fst (scored_results e ext s vs ms q opts);
        df = diversityFactor_of opts;
        out = fst (rerank e ext s vs ms q opts)
    in out = take (maxResults_of opts) (applyDiversity pre df)
     \<and> (maxResults opts = None \<longrightarrow> maxResults_of opts = 10)
     \<and> length out \<le> maxResults_of opts
     \<and> sorted_wrt (\<lambda>a b. combinedScore b \<le> combinedScore a) out
     \<and> applyDiversity pre df =
         (if df \<le> 0 \<or> length pre \<le> 1 then pre
          else sort_desc combinedScore (map (penalized df pre) [0 ..< length pre]))
     \<and> (\<forall>i < length pre. 0 < df \<and> 0 \<le> combinedScore (pre ! i) \<longrightarrow>
           0 \<le> combinedScore (penalized df pre i)
           \<and> combinedScore (penalized df pre i) \<le> combinedScore (pre ! i))
     \<and> (nonneg_weights opts \<and> nonneg_relevance ext \<longrightarrow>
           (\<forall>i < length pre. 0 \<le> combinedScore (pre ! i))))"
proof -
  let ?pre = "fst (scored_results e ext s vs ms q opts)"
  let ?df = "diversityFactor_of opts"
  let ?out = "fst (rerank e ext s vs ms q opts)"
  have 1: "?out = take (maxResults_of opts) (applyDiversity ?pre ?df)"
    by (rule rerank_eq)
  have 2: "maxResults opts = None \<longrightarrow> maxResults_of opts = 10"
    by (simp add: maxResults_of_def)
  have 3: "length ?out \<le> maxResults_of opts"
    by (simp add: 1)
  have 4: "sorted_wrt (\<lambda>a b. combinedScore b \<le> combinedScore a) ?out"
    unfolding 1
    by (intro sorted_wrt_take sorted_desc_applyDiversity sorted_desc_scored_results)
  have 5: "applyDiversity ?pre ?df =
         (if ?df \<le> 0 \<or> length ?pre \<le> 1 then ?pre
          else sort_desc combinedScore (map (penalized ?df ?pre) [0 ..< length ?pre]))"
    by (simp add: applyDiversity_def diversity_loop_penalized)
  have 6: "0 \<le> combinedScore (penalized ?df ?pre i)
           \<and> combinedScore (penalized ?df ?pre i) \<le> combinedScore (?pre ! i)"
    if "0 < ?df" and "0 \<le> combinedScore (?pre ! i)" for i
    using that penalty_at_nonneg [of ?df ?pre i] by (simp add: penalized_def)
  have 7: "0 \<le> combinedScore (?pre ! i)"
    if "nonneg_weights opts \<and> nonneg_relevance ext" and "i < length ?pre" for i
    using that scored_results_ge [of "?pre ! i" e ext s vs ms q opts] by simp
  from 1 2 3 4 5 6 7 show ?thesis
    unfolding Let_def by blast
qed

text \<open>Two vector hits with the same normalized title: the second loses the factor 0.1.\<close>

theorem C4_diversity_pass_witness:
  "0 < diversityFactor_of manager_weights
   \<and> nonneg_weights manager_weights \<and> nonneg_relevance silent
   \<and> map combinedScore (fst (scored_results unset_env silent new_RerankerService
        [hit_a, hit_b] [] [] manager_weights)) = [69/100, 63/100]
   \<and> 0 \<le> combinedScore (penalized (diversityFactor_of manager_weights)
        (fst (scored_results unset_env silent new_RerankerService
           [hit_a, hit_b] [] [] manager_weights)) 1)
   \<and> combinedScore (penalized (diversityFactor_of manager_weights)
        (fst (scored_results unset_env silent new_RerankerService
           [hit_a, hit_b] [] [] manager_weights)) 1) \<le> 63/100
   \<and> map combinedScore (fst (rerank unset_env silent new_RerankerService
        [hit_a, hit_b] [] [] manager_weights)) = [69/100, 53/100]"
proof -
  let ?pre = "fst (scored_results unset_env silent new_RerankerService
        [hit_a, hit_b] [] [] manager_weights)"
  have df: "0 < diversityFactor_of manager_weights"
    by (simp add: diversityFactor_of_def manager_weights_def no_options_def)
  have nn: "nonneg_weights manager_weights" "nonneg_relevance silent"
    by (simp_all add: nonneg_weights_def manager_weights_def no_options_def
        nonneg_relevance_def silent_def)
  obtain a b where pre: "?pre = [a, b]"
    and s: "combinedScore a = 69/100" "combinedScore b = 63/100"
    using same_title_scored [of silent] by (auto simp: map_eq_Cons_conv)
  have out: "map combinedScore (fst (rerank unset_env silent new_RerankerService
        [hit_a, hit_b] [] [] manager_weights)) = [69/100, 53/100]"
    using same_title_reranked [of silent] by (auto simp: map_eq_Cons_conv)
  from C4_diversity_pass [of unset_env silent new_RerankerService "[hit_a, hit_b]" "[]" "[]"
      manager_weights]
  have "\<forall>i < length ?pre. 0 < diversityFactor_of manager_weights \<and> 0 \<le> combinedScore (?pre ! i) \<longrightarrow>
           0 \<le> combinedScore (penalized (diversityFactor_of manager_weights) ?pre i)
           \<and> combinedScore (penalized (diversityFactor_of manager_weights) ?pre i)
               \<le> combinedScore (?pre ! i)"
    unfolding Let_def by blast
  from this [rule_format, of 1] df pre s
  have "0 \<le> combinedScore (penalized (diversityFactor_of manager_weights) ?pre 1)
      \<and> combinedScore (penalized (diversityFactor_of manager_weights) ?pre 1) \<le> 63/100"
    by simp
  with df nn pre s out show ?thesis by simp
qed

text \<open>C4 as stated fails: with a diversity factor of 2 and two metadata rows, the imbalance
  penalty makes both scores -0.15 before the pass, and the pass raises them to 0.\<close>

theorem C4_diversity_pass_counterexample:
  "map docId (fst (scored_results unset_env silent new_RerankerService [] [row_d1, row_d2] []
       steep_diversity)) = [''d1'', ''d2'']
   \<and> map combinedScore (fst (scored_results unset_env silent new_RerankerService []
       [row_d1, row_d2] [] steep_diversity)) = [- (3/20), - (3/20)]
   \<and> map docId (fst (rerank unset_env silent new_RerankerService [] [row_d1, row_d2] []
       steep_diversity)) = [''d1'', ''d2'']
   \<and> map combinedScore (fst (rerank unset_env silent new_RerankerService [] [row_d1, row_d2] []
       steep_diversity)) = [0, 0]"
  using steep_scored [of silent] steep_reranked [of silent]
  by (auto simp: map_eq_Cons_conv)

section \<open>Claims about the providers and the service\<close>

text \<open>
  C5. The Cohere provider attaches the relevance score of the service as it is: for the one
  document \<open>a\<close> and an answer that gives it the relevance score 1.5, \<^verbatim>\<open>rerank\<close> returns
  the document with the reranker score 1.5, outside the unit interval. The OpenAI and Gemini
  providers clamp every parsed score; see \<open>openai_rerank_unit\<close> and \<open>gemini_rerank_unit\<close>.
\<close>

theorem C5_cohere_score_out_of_range:
  "length (provider_rerank (CohereReranker ''key'' ''rerank-english-v3.0'') cohere_overshoots
      ''q'' [doc_a]) = 1
   \<and> rerankerScore (hd (provider_rerank (CohereReranker ''key'' ''rerank-english-v3.0'')
      cohere_overshoots ''q'' [doc_a])) = Some (3/2)"
  by (simp add: cohere_overshoots_eval del: provider_rerank.simps)

text \<open>
  C6. When the reranker is disabled, or the selected provider has no API key, or the
  provider name is unknown, a fresh service keeps its provider unset when it initializes,
  \<^verbatim>\<open>isAvailable\<close> answers false, and \<^verbatim>\<open>rerank\<close> and \<^verbatim>\<open>rerankBatch\<close> return the input
  documents each with the reranker score 0.5, on the first call and on every later one,
  whatever the environment then is; and every candidate the hybrid reranker returns has the
  hosted reranker score 0.5.
\<close>

theorem C6_unconfigured_service:
  assumes "reranker_disabled e \<or> missing_key e \<or> unknown_provider e"
  shows "provider (initialize e new_RerankerService) = None
     \<and> isAvailable e new_RerankerService = (False, initialize e new_RerankerService)
     \<and> service_rerank e ext new_RerankerService q docs
         = (map (\<lambda>doc. doc\<lparr>rerankerScore := Some (1/2)\<rparr>) docs, initialize e new_RerankerService)
     \<and> service_rerankBatch e world new_RerankerService q docs batchSize
         = Some (map (\<lambda>doc. doc\<lparr>rerankerScore := Some (1/2)\<rparr>) docs,
                 initialize e new_RerankerService)
     \<and> (\<forall>e'. isAvailable e' (initialize e new_RerankerService)
                = (False, initialize e new_RerankerService)
            \<and> service_rerank e' ext (initialize e new_RerankerService) q docs
                = (map (\<lambda>doc. doc\<lparr>rerankerScore := Some (1/2)\<rparr>) docs,
                   initialize e new_RerankerService)
            \<and> service_rerankBatch e' world (initialize e new_RerankerService) q docs batchSize
                = Some (map (\<lambda>doc. doc\<lparr>rerankerScore := Some (1/2)\<rparr>) docs,
                        initialize e new_RerankerService))
     \<and> (\<forall>c \<in> set (fst (rerank e ext new_RerankerService vs ms q opts)).
           hostedRerankerScore c = Some (1/2))"
proof -
  let ?s = "initialize e new_RerankerService"
  have p: "provider ?s = None"
    by (rule initialize_unconfigured [OF _ assms]) (simp add: new_RerankerService_def)
  have i: "initialized ?s"
    by (rule initialized_initialize)
  have n: "\<not> initialized new_RerankerService"
    by (simp add: new_RerankerService_def)
  have 1: "isAvailable e new_RerankerService = (False, ?s)"
    using p n by (simp add: isAvailable_def Let_def)
  have 2: "service_rerank e ext new_RerankerService q docs
         = (map (\<lambda>doc. doc\<lparr>rerankerScore := Some (1/2)\<rparr>) docs, ?s)"
    using p n by (simp add: service_rerank_def Let_def default_scores_def)
  have 3: "service_rerankBatch e world new_RerankerService q docs batchSize
         = Some (map (\<lambda>doc. doc\<lparr>rerankerScore := Some (1/2)\<rparr>) docs, ?s)"
    using p n by (simp add: service_rerankBatch_def Let_def default_scores_def)
  have 4: "isAvailable e' ?s = (False, ?s)
            \<and> service_rerank e' ext ?s q docs
                = (map (\<lambda>doc. doc\<lparr>rerankerScore := Some (1/2)\<rparr>) docs, ?s)
            \<and> service_rerankBatch e' world ?s q docs batchSize
                = Some (map (\<lambda>doc. doc\<lparr>rerankerScore := Some (1/2)\<rparr>) docs, ?s)" for e'
    using p i
    by (simp add: isAvailable_def service_rerank_def service_rerankBatch_def Let_def
        default_scores_def)
  have 5: "hostedRerankerScore c = Some (1/2)"
    if "c \<in> set (fst (rerank e ext new_RerankerService vs ms q opts))" for c
    using rerank_unconfigured [OF p that] .
  from p 1 2 3 4 5 show ?thesis by blast
qed

text \<open>The reranker is enabled with a key, but for the provider "Mistral".\<close>

theorem C6_unconfigured_service_witness:
  "unknown_provider misspelt_env
   \<and> fst (isAvailable misspelt_env new_RerankerService) = False
   \<and> fst (service_rerank misspelt_env silent new_RerankerService ''q'' [doc_a])
       = [doc_a\<lparr>rerankerScore := Some (1/2)\<rparr>]"
proof -
  have u: "reranker_disabled misspelt_env \<or> missing_key misspelt_env
      \<or> unknown_provider misspelt_env"
    using misspelt_unknown by simp
  from C6_unconfigured_service [OF u, of silent "''q''" "[doc_a]"] misspelt_unknown
  show ?thesis by simp
qed

text \<open>
  C8, as amended. Without an explicit batch size, \<^verbatim>\<open>rerankBatch\<close> cuts the documents into
  consecutive chunks of 100 for the Cohere provider and of 10 for the OpenAI and Gemini
  providers, sends one request per chunk in the order of the chunks, pauses once between
  two requests, and returns the results of the chunks one after the other. Inside a chunk
  the documents come back sorted by reranker score, largest first: the same documents, not
  in their original order.
\<close>

theorem C8_rerankBatch_chunks:
  "rerankBatch p world q docs None =
      Some (concat (map (\<lambda>(k, c). provider_rerank p (world k) q c)
                     (enumerate 0 (chunks (defaultBatchSize p) docs))),
            length (chunks (defaultBatchSize p) docs) - 1)
   \<and> defaultBatchSize p = (case p of CohereReranker k m \<Rightarrow> 100 | _ \<Rightarrow> 10)
   \<and> concat (chunks (defaultBatchSize p) docs) = docs
   \<and> (\<forall>c \<in> set (chunks (defaultBatchSize p) docs).
         0 < length c \<and> length c \<le> defaultBatchSize p
         \<and> (\<forall>k. mset (map docId (provider_rerank p (world k) q c)) = mset (map docId c)
                \<and> sorted_wrt (\<lambda>a b. rerankerScore_of b \<le> rerankerScore_of a)
                     (provider_rerank p (world k) q c)))"
proof -
  have n: "0 < defaultBatchSize p"
    by (cases p) simp_all
  have "rerankBatch p world q docs None =
      Some (concat (map (\<lambda>(k, c). provider_rerank p (world k) q c)
                     (enumerate 0 (chunks (defaultBatchSize p) docs))),
            length (chunks (defaultBatchSize p) docs) - 1)"
    by (simp add: rerankBatch_def rerankBatch_loop_chunks [OF n])
  moreover have "defaultBatchSize p = (case p of CohereReranker k m \<Rightarrow> 100 | _ \<Rightarrow> 10)"
    by (cases p) simp_all
  moreover have "concat (chunks (defaultBatchSize p) docs) = docs"
    by (rule concat_chunks [OF n])
  moreover have "0 < length c \<and> length c \<le> defaultBatchSize p"
    if "c \<in> set (chunks (defaultBatchSize p) docs)" for c
    using chunks_sizes [OF n that] .
  ultimately show ?thesis
    using provider_rerank_mset sorted_provider_rerank by blast
qed

text \<open>Eleven documents and the OpenAI provider: two requests, one pause.\<close>

theorem C8_rerankBatch_chunks_witness:
  "rerankBatch (OpenAIReranker ''k'' ''m'') silent_world ''q'' (replicate 11 doc_a) None
     = Some (replicate 11 (doc_a\<lparr>rerankerScore := Some (1/2)\<rparr>), 1)"
proof -
  let ?p = "OpenAIReranker ''k'' ''m''"
  from C8_rerankBatch_chunks [of ?p silent_world "''q''" "replicate 11 doc_a"]
  have "rerankBatch ?p silent_world ''q'' (replicate 11 doc_a) None =
      Some (concat (map (\<lambda>(k, c). provider_rerank ?p (silent_world k) ''q'' c)
                     (enumerate 0 (chunks (defaultBatchSize ?p) (replicate 11 doc_a)))),
            length (chunks (defaultBatchSize ?p) (replicate 11 doc_a)) - 1)"
    by blast
  moreover have "concat (map (\<lambda>(k, c). provider_rerank ?p (silent_world k) ''q'' c)
                     (enumerate 0 (chunks (defaultBatchSize ?p) (replicate 11 doc_a))))
      = default_scores (replicate 10 doc_a) @ default_scores [doc_a]"
    by (simp add: chunks_eleven silent_world_def openai_silent del: provider_rerank.simps)
  moreover have "default_scores (replicate 10 doc_a) @ default_scores [doc_a]
      = replicate 11 (doc_a\<lparr>rerankerScore := Some (1/2)\<rparr>)"
    by (simp add: default_scores_def numeral_eq_Suc)
  moreover have "length (chunks (defaultBatchSize ?p) (replicate 11 doc_a)) - 1 = 1"
    by (simp add: chunks_eleven)
  ultimately show ?thesis by simp
qed

text \<open>C8 as stated fails: the documents \<open>a\<close> and \<open>b\<close>, scored 0.1 and 0.9, come back as
  \<open>b\<close>, \<open>a\<close>.\<close>

theorem C8_rerankBatch_counterexample:
  "map docId [doc_a, doc_b] = [''a'', ''b'']
   \<and> rerankBatch (OpenAIReranker ''k'' ''m'') openai_prefers_second ''q'' [doc_a, doc_b] None
       = Some ([doc_b\<lparr>rerankerScore := Some (9/10)\<rparr>, doc_a\<lparr>rerankerScore := Some (1/10)\<rparr>], 0)"
proof -
  have "map docId [doc_a, doc_b] = [''a'', ''b'']"
    by (simp add: doc_a_def doc_b_def)
  moreover have "rerankBatch (OpenAIReranker ''k'' ''m'') openai_prefers_second ''q''
      [doc_a, doc_b] None
       = Some ([doc_b\<lparr>rerankerScore := Some (9/10)\<rparr>, doc_a\<lparr>rerankerScore := Some (1/10)\<rparr>], 0)"
    by (simp add: rerankBatch_def rerankBatch_loop_chunks chunks_two
        openai_prefers_second_eval del: provider_rerank.simps)
  ultimately show ?thesis by simp
qed

text \<open>
  C10. A score of exactly 0 is replaced by 0.5 wherever a reranker score is attached: no
  document returned by \<^verbatim>\<open>rerank\<close> of a provider or of the service, and no candidate
  returned by the hybrid reranker, carries a reranker score of 0.
\<close>

theorem C10_reranker_score_never_zero:
  "or_num (Some 0) (1/2) = 1/2
   \<and> (\<forall>d \<in> set (provider_rerank p ext q docs). \<exists>v. rerankerScore d = Some v \<and> v \<noteq> 0)
   \<and> (\<forall>d \<in> set (fst (service_rerank e ext s q docs)). \<exists>v. rerankerScore d = Some v \<and> v \<noteq> 0)
   \<and> (\<forall>c \<in> set (fst (rerank e ext s vs ms q opts)).
         \<exists>v. hostedRerankerScore c = Some v \<and> v \<noteq> 0)"
proof (intro conjI ballI)
  show "or_num (Some 0) (1/2) = 1/2" by (rule or_num_zero)
next
  fix d assume "d \<in> set (provider_rerank p ext q docs)"
  then show "\<exists>v. rerankerScore d = Some v \<and> v \<noteq> 0" by (rule provider_rerank_nonzero)
next
  fix d assume "d \<in> set (fst (service_rerank e ext s q docs))"
  then show "\<exists>v. rerankerScore d = Some v \<and> v \<noteq> 0" by (rule service_rerank_nonzero)
next
  fix c assume "c \<in> set (fst (rerank e ext s vs ms q opts))"
  from rerank_hosted [OF this] show "\<exists>v. hostedRerankerScore c = Some v \<and> v \<noteq> 0"
    by (auto simp: or_num_nonzero)
qed

text \<open>OpenAI scores the document \<open>a\<close> with 0: it comes back with 0.5.\<close>

theorem C10_reranker_score_never_zero_witness:
  "map rerankerScore (provider_rerank (OpenAIReranker ''k'' ''m'') openai_zero_first ''q''
      [doc_a, doc_b]) = [Some (9/10), Some (1/2)]
   \<and> rerankerScore (doc_a\<lparr>rerankerScore := Some (1/2)\<rparr>) \<noteq> Some 0"
proof -
  let ?out = "provider_rerank (OpenAIReranker ''k'' ''m'') openai_zero_first ''q'' [doc_a, doc_b]"
  have out: "?out = [doc_b\<lparr>rerankerScore := Some (9/10)\<rparr>, doc_a\<lparr>rerankerScore := Some (1/2)\<rparr>]"
    by (rule openai_zero_first_eval)
  then have "doc_a\<lparr>rerankerScore := Some (1/2)\<rparr> \<in> set ?out"
    by (simp del: provider_rerank.simps)
  with C10_reranker_score_never_zero [of "OpenAIReranker ''k'' ''m''" openai_zero_first "''q''"
      "[doc_a, doc_b]"]
  have "\<exists>v. rerankerScore (doc_a\<lparr>rerankerScore := Some (1/2)\<rparr>) = Some v \<and> v \<noteq> 0"
    by blast
  then have "rerankerScore (doc_a\<lparr>rerankerScore := Some (1/2)\<rparr>) \<noteq> Some 0"
    by auto
  with out show ?thesis by (simp del: provider_rerank.simps)
qed

section \<open>The claims about the search manager\<close>











text \<open>
  For a court or a case type, what the code takes out of the query is every occurrence of
  the extracted value, which for five of the six court patterns is a fixed name and not
  the text that matched.
\<close>

lemma court_mention_stays:
  "f_court (extractFiltersFromQuery ''supreme court cases'') = Some ''Supreme Court of India''
   \<and> f_fulltext (extractFiltersFromQuery ''supreme court cases'') = Some ''supreme court cases''"
  by code_simp


end
